theory Spec2Isabelle
  imports Main "HOL-Library.Sublist"
begin

section \<open>Gucli: a GUI front-end generated from an ini file\<close>

text \<open>
  The development follows \<^verbatim>\<open>gucli.pyw\<close>. Python strings are HOL strings, the
  values that argparse leaves in the namespace are a datatype, a raised exception is
  the left summand of a sum, and everything the script does to the outside (message
  boxes, printed lines, files, the spawned process) is threaded as explicit data.
  A character of a \<^verbatim>\<open>str\<close> is a code point below 256; the text a process writes
  is decoded to a list of code points of any size.
\<close>

subsection \<open>Python values and the built-ins the script uses\<close>

datatype exn = KeyError | TypeError | OSError | ConfigError | ValueError | ArgumentError | IndexError

text \<open>
  The script passes no \<^verbatim>\<open>type=\<close> to argparse, so a value in the namespace is
  \<^verbatim>\<open>None\<close>, a bool (the \<^verbatim>\<open>store_true\<close> action), a str, or a list of str
  (\<^verbatim>\<open>nargs='+'\<close>).
\<close>

datatype pyval = PNone | PBool bool | PStr string | PList "string list"

type_synonym args = "string \<rightharpoonup> pyval"

text \<open>Truth value testing: \<^verbatim>\<open>if v:\<close>.\<close>

fun truthy :: "pyval \<Rightarrow> bool" where
  "truthy PNone = False"
| "truthy (PBool b) = b"
| "truthy (PStr s) = (s \<noteq> [])"
| "truthy (PList xs) = (xs \<noteq> [])"

text \<open>\<^verbatim>\<open>d.get(key, default)\<close> on a dict.\<close>

definition dict_get :: "('k \<rightharpoonup> 'v) \<Rightarrow> 'k \<Rightarrow> 'v \<Rightarrow> 'v" where
  "dict_get d k dflt = (case d k of None \<Rightarrow> dflt | Some v \<Rightarrow> v)"

text \<open>\<^verbatim>\<open>sep.join(xs)\<close>.\<close>

fun join :: "string \<Rightarrow> string list \<Rightarrow> string" where
  "join sep [] = []"
| "join sep [x] = x"
| "join sep (x # y # ys) = x @ sep @ join sep (y # ys)"

text \<open>
  \<^verbatim>\<open>repr\<close> of a str: the quote is \<^verbatim>\<open>'\<close> unless the string holds a
  \<^verbatim>\<open>'\<close> and no \<^verbatim>\<open>"\<close>; the quote and the backslash are escaped, and the
  characters that are not printable (below 0x20, from 0x7f to 0xa0, and 0xad) are written
  \<^verbatim>\<open>\t \n \r\<close> or \<^verbatim>\<open>\xhh\<close>.
\<close>

definition hex_digit :: "nat \<Rightarrow> char" where
  "hex_digit n = ''0123456789abcdef'' ! (n mod 16)"

definition repr_char :: "char \<Rightarrow> char \<Rightarrow> string" where
  "repr_char q c =
     (if c = q \<or> c = CHR 0x5C then [CHR 0x5C, c]
      else if c = CHR 0x09 then [CHR 0x5C, CHR ''t'']
      else if c = CHR 0x0A then [CHR 0x5C, CHR ''n'']
      else if c = CHR 0x0D then [CHR 0x5C, CHR ''r'']
      else if of_char c < (32::nat) \<or> ((127::nat) \<le> of_char c \<and> of_char c \<le> (160::nat))
              \<or> of_char c = (173::nat)
        then [CHR 0x5C, CHR ''x'', hex_digit (of_char c div 16), hex_digit (of_char c)]
      else [c])"

definition repr_str :: "string \<Rightarrow> string" where
  "repr_str s =
     (let q = (if CHR 0x27 \<in> set s \<and> CHR 0x22 \<notin> set s then CHR 0x22 else CHR 0x27)
      in [q] @ concat (map (repr_char q) s) @ [q])"

text \<open>\<^verbatim>\<open>str(v)\<close>, which is what \<^verbatim>\<open>f'{v}'\<close> yields.\<close>

fun py_str :: "pyval \<Rightarrow> string" where
  "py_str PNone = ''None''"
| "py_str (PBool b) = (if b then ''True'' else ''False'')"
| "py_str (PStr s) = s"
| "py_str (PList xs) = ''['' @ join '', '' (map repr_str xs) @ '']''"

subsection \<open>The configuration\<close>

text \<open>
  A \<^verbatim>\<open>ConfigParser(default_section='root')\<close> after \<^verbatim>\<open>read_file\<close>: the options of
  \<^verbatim>\<open>[root]\<close>, and the other sections in file order, each with its own options.
  Option values are the strings \<^verbatim>\<open>get\<close> returns (the \<^verbatim>\<open>%\<close> interpolation of
  ConfigParser is not part of the model).
\<close>

type_synonym options = "(string \<times> string) list"

record config =
  defaults :: options
  sections :: "(string \<times> options) list"

text \<open>
  \<^verbatim>\<open>config[section].get(key, None)\<close>: the section's own option, else the one of
  \<^verbatim>\<open>[root]\<close>, which every section inherits, else the fallback.
\<close>

definition section_get :: "config \<Rightarrow> options \<Rightarrow> string \<Rightarrow> string option" where
  "section_get cfg opts key =
     (case map_of opts key of Some v \<Rightarrow> Some v | None \<Rightarrow> map_of (defaults cfg) key)"

definition get_or :: "'a \<Rightarrow> 'a option \<Rightarrow> 'a" where
  "get_or fallback r = (case r of None \<Rightarrow> fallback | Some v \<Rightarrow> v)"

definition SHOW_COMMAND_HELP :: string where
  "SHOW_COMMAND_HELP = ''Show command's original help page''"

subsection \<open>What the schema compiler works with\<close>

text \<open>\<^verbatim>\<open>s.split(sep)\<close> for a one-character separator.\<close>

fun split :: "char \<Rightarrow> string \<Rightarrow> string list" where
  "split sep [] = [[]]"
| "split sep (c # cs) =
     (if c = sep then [] # split sep cs
      else (case split sep cs of [] \<Rightarrow> [[c]] | w # ws \<Rightarrow> (c # w) # ws))"

text \<open>
  \<^verbatim>\<open>s.strip()\<close>: it removes the characters of \<^verbatim>\<open>str.isspace\<close>, which below
  256 are these, the next line (0x85) and the no-break space (0xa0) among them.
\<close>

definition isspace :: "char \<Rightarrow> bool" where
  "isspace c = (of_char c \<in> {9, 10, 11, 12, 13, 28, 29, 30, 31, 32, 133, 160 :: nat})"

definition strip :: "string \<Rightarrow> string" where
  "strip s = rev (dropWhile isspace (rev (dropWhile isspace s)))"

text \<open>
  The keyword arguments of one \<^verbatim>\<open>add_argument\<close> call (the script's \<^verbatim>\<open>arg_dict\<close>).
  A key that is not passed, or passed as \<^verbatim>\<open>None\<close>, is \<open>None\<close> here; only for
  \<^verbatim>\<open>default\<close> the two differ, so \<open>Some PNone\<close> is \<^verbatim>\<open>default=None\<close>.
\<close>

record arg_dict =
  arg_help :: string
  arg_default :: "pyval option"
  arg_nargs :: "string option"
  arg_widget :: "string option"
  arg_action :: "string option"
  arg_choices :: "string list option"
  arg_dest :: "string option"
  arg_required :: "bool option"

text \<open>A call \<^verbatim>\<open>item.add_argument(primary_argument, **arg_dict)\<close>.\<close>

type_synonym call = "string \<times> arg_dict"

text \<open>
  The object a call goes to: the parser itself or one of its mutually exclusive groups,
  numbered in the order \<^verbatim>\<open>parser.add_mutually_exclusive_group()\<close> made them.
\<close>

datatype item = Parser | Group nat

text \<open>
  The parser records what the script has put into it: the groups made and, in order,
  every accepted call with the object it went to.
\<close>

record gooey_parser =
  description :: string
  group_count :: nat
  actions :: "(item \<times> call) list"

type_synonym mutex_groups = "string \<rightharpoonup> nat"

subsection \<open>The outside of the script\<close>

text \<open>
  What \<^verbatim>\<open>Popen(cmd, shell=True, stdout=PIPE, stderr=STDOUT)\<close> turns out to be: a
  process that writes some lines (of bytes), closes its output and ends with a wait
  status, or one that writes some lines and never ends.
\<close>

datatype process = Exits "string list" int | Hangs "string list"

record world =
  files :: "string \<rightharpoonup> string"
  script_name :: string
  script_parent :: string
  python_stem :: string
  icon_data :: string
  read_file :: "string \<Rightarrow> config option"
  refuses :: "item \<Rightarrow> gooey_parser \<Rightarrow> call \<Rightarrow> exn option"
  parse_args :: "gooey_parser \<Rightarrow> args option"
  popen :: "string \<Rightarrow> process option"
  decode :: "string \<Rightarrow> nat list"

text \<open>
  \<^verbatim>\<open>files\<close> maps a path to the contents of the file there; \<^verbatim>\<open>script_name\<close>,
  \<^verbatim>\<open>script_parent\<close> and \<^verbatim>\<open>python_stem\<close> are \<^verbatim>\<open>Path(__file__).name\<close>,
  \<^verbatim>\<open>str(Path(__file__).parent)\<close> and \<^verbatim>\<open>Path(sys.executable).stem\<close>;
  \<^verbatim>\<open>icon_data\<close> is what \<^verbatim>\<open>base64.decodebytes\<close> gives for the built-in icon;
  \<^verbatim>\<open>read_file\<close> is ConfigParser reading a text (\<open>None\<close> when it raises).
  The next two are the parser library, whose code is not the script's:
  \<^verbatim>\<open>refuses\<close> is the exception, if any, with which \<^verbatim>\<open>add_argument\<close> of the
  given object answers a declaration (argparse does so for a positional argument in a
  mutually exclusive group, for a flag that does not begin with \<^verbatim>\<open>-\<close>, for an option
  string declared twice), and \<^verbatim>\<open>parse_args\<close> is the namespace it returns
  (\<open>None\<close> when the library ends the program itself: a usage error, or Gooey showing
  its form). \<^verbatim>\<open>popen\<close> is the process a command line starts (\<open>None\<close> when
  \<^verbatim>\<open>Popen\<close> raises); \<^verbatim>\<open>decode\<close> is
  \<^verbatim>\<open>bytes.decode(errors='backslashreplace')\<close>, from bytes to code points.
\<close>

subsection \<open>\<^verbatim>\<open>select_parser_group\<close> and \<^verbatim>\<open>add_argument\<close>\<close>

definition select_parser_group ::
  "config \<Rightarrow> string \<times> options \<Rightarrow> mutex_groups \<Rightarrow> gooey_parser
     \<Rightarrow> item \<times> mutex_groups \<times> gooey_parser" where
  "select_parser_group cfg sec mutex_group_dict parser =
     (case section_get cfg (snd sec) ''mutex'' of
        None \<Rightarrow> (Parser, mutex_group_dict, parser)
      | Some arg_mutex \<Rightarrow>
          if arg_mutex \<noteq> '''' then
            (case mutex_group_dict arg_mutex of
               None \<Rightarrow>
                 (Group (group_count parser),
                  mutex_group_dict(arg_mutex \<mapsto> group_count parser),
                  parser\<lparr>group_count := Suc (group_count parser)\<rparr>)
             | Some g \<Rightarrow> (Group g, mutex_group_dict, parser))
          else (Parser, mutex_group_dict, parser))"

text \<open>Lines 221 to 223: the comma separated \<^verbatim>\<open>choices\<close> as a list.\<close>

definition parse_choices :: "string \<Rightarrow> string list" where
  "parse_choices raw_choices = map strip (filter (\<lambda>ch. ch \<noteq> '''') (split CHR '','' raw_choices))"

text \<open>
  The type switch of \<^verbatim>\<open>add_argument\<close> (lines 206 to 233), with the messages it
  shows through \<^verbatim>\<open>info_box\<close>.
\<close>

definition type_params ::
  "config \<Rightarrow> string \<times> options \<Rightarrow> string \<Rightarrow> arg_dict \<Rightarrow> arg_dict \<times> string list" where
  "type_params cfg sec arg_type d =
     (if arg_type = ''boolean'' then (d\<lparr>arg_action := Some ''store_true''\<rparr>, [])
      else if arg_type = ''string'' then (d\<lparr>arg_action := Some ''store''\<rparr>, [])
      else if arg_type = ''integer'' then (d\<lparr>arg_widget := Some ''IntegerField''\<rparr>, [])
      else if arg_type = ''file''
        then (d\<lparr>arg_widget := Some ''MultiFileChooser'', arg_nargs := Some ''+''\<rparr>, [])
      else if arg_type = ''save'' then (d\<lparr>arg_widget := Some ''FileSaver''\<rparr>, [])
      else if arg_type = ''dir'' then (d\<lparr>arg_widget := Some ''DirChooser''\<rparr>, [])
      else if arg_type = ''choice'' then
        (let raw_choices = get_or ''Yes, No'' (section_get cfg (snd sec) ''choices'');
             arg_choices = parse_choices raw_choices
         in (d\<lparr>arg_action := Some ''store'',
                arg_choices := (if arg_choices \<noteq> [] then Some arg_choices else None)\<rparr>, []))
      else (d\<lparr>arg_action := Some ''store_true''\<rparr>,
            [''Section \"'' @ fst sec @ ''\": Invalid type \"'' @ arg_type
               @ ''\"; defaulting to boolean'']))"

text \<open>Lines 191 to 240: the call that \<^verbatim>\<open>add_argument\<close> prepares for a section.\<close>

definition argument_call :: "config \<Rightarrow> string \<times> options \<Rightarrow> call \<times> string list" where
  "argument_call cfg sec =
     (let arg_flag = get_or ''_positional'' (section_get cfg (snd sec) ''flag'');
          arg_type = get_or ''boolean'' (section_get cfg (snd sec) ''type'');
          arg_default = section_get cfg (snd sec) ''default'';
          arg_help = get_or
            (fst sec @ '' '' @ arg_flag @ '' ('' @ arg_type @ '') defaults to \"''
               @ (case arg_default of None \<Rightarrow> ''None'' | Some s \<Rightarrow> s) @ ''\"'')
            (section_get cfg (snd sec) ''help'');
          d0 = \<lparr>arg_help = arg_help,
                arg_default = Some (case arg_default of None \<Rightarrow> PNone | Some s \<Rightarrow> PStr s),
                arg_nargs = None, arg_widget = None, arg_action = None, arg_choices = None,
                arg_dest = None, arg_required = None\<rparr>;
          (d1, msgs) = type_params cfg sec arg_type d0
      in if ''_positional'' = arg_flag then ((fst sec, d1), msgs)
         else ((arg_flag, d1\<lparr>arg_dest := Some (fst sec), arg_required := Some False\<rparr>), msgs))"

text \<open>What \<^verbatim>\<open>build_arg_parser\<close> threads through its loop.\<close>

record build_state =
  parser :: gooey_parser
  mutex_group_dict :: mutex_groups
  notices :: "string list"

text \<open>
  A raised exception comes with the messages \<^verbatim>\<open>info_box\<close> has shown until then.
\<close>

type_synonym raised = "exn \<times> string list"

text \<open>
  \<^verbatim>\<open>add_argument\<close>: the call is prepared, the object is selected (which may make
  and register a group), and \<^verbatim>\<open>item.add_argument\<close> either raises or adds the call.
\<close>

definition add_argument ::
  "world \<Rightarrow> config \<Rightarrow> build_state \<Rightarrow> string \<times> options \<Rightarrow> raised + build_state" where
  "add_argument w cfg st sec =
     (let (c, msgs) = argument_call cfg sec;
          (item, groups, p) = select_parser_group cfg sec (mutex_group_dict st) (parser st)
      in case refuses w item p c of
           Some e \<Rightarrow> Inl (e, notices st @ msgs)
         | None \<Rightarrow>
             Inr \<lparr>parser = p\<lparr>actions := actions p @ [(item, c)]\<rparr>,
                  mutex_group_dict = groups,
                  notices = notices st @ msgs\<rparr>)"

text \<open>The loop \<^verbatim>\<open>for section in config.sections()\<close>; it ends at the first exception.\<close>

fun add_arguments ::
  "world \<Rightarrow> config \<Rightarrow> build_state \<Rightarrow> (string \<times> options) list \<Rightarrow> raised + build_state" where
  "add_arguments w cfg st [] = Inr st"
| "add_arguments w cfg st (sec # rest) =
     (case add_argument w cfg st sec of
        Inl e \<Rightarrow> Inl e
      | Inr st' \<Rightarrow> add_arguments w cfg st' rest)"

subsection \<open>\<^verbatim>\<open>build_arg_parser\<close>\<close>

definition help_call :: call where
  "help_call =
     (''--mock-command-help-flag'',
      \<lparr>arg_help = ''Execute command's own help info'', arg_default = None, arg_nargs = None,
       arg_widget = None, arg_action = Some ''store_true'', arg_choices = None,
       arg_dest = Some SHOW_COMMAND_HELP, arg_required = None\<rparr>)"

text \<open>Lines 253 to 268: the parser as it stands when \<^verbatim>\<open>parse_args\<close> is called.\<close>

definition build_parser :: "world \<Rightarrow> config \<Rightarrow> raised + build_state" where
  "build_parser w cfg =
     (case map_of (defaults cfg) ''command'' of
        None \<Rightarrow> Inl (KeyError, [])
      | Some config_command \<Rightarrow>
          (case add_arguments w cfg
                  \<lparr>parser = \<lparr>description = get_or config_command (map_of (defaults cfg) ''about''),
                             group_count = 0, actions = []\<rparr>,
                   mutex_group_dict = Map.empty, notices = []\<rparr>
                  (sections cfg) of
             Inl e \<Rightarrow> Inl e
           | Inr st \<Rightarrow>
               (case map_of (defaults cfg) ''help_flag'' of
                  None \<Rightarrow> Inr st
                | Some help_flag \<Rightarrow>
                    if help_flag \<noteq> '''' then
                      (case refuses w Parser (parser st) help_call of
                         Some e \<Rightarrow> Inl (e, notices st)
                       | None \<Rightarrow>
                           Inr (st\<lparr>parser := (parser st)
                                  \<lparr>actions := actions (parser st) @ [(Parser, help_call)]\<rparr>\<rparr>))
                    else Inr st)))"

subsection \<open>The compiled schema in the words of the specification\<close>

definition supported_types :: "string list" where
  "supported_types = [''boolean'', ''string'', ''integer'', ''file'', ''dir'', ''save'', ''choice'']"

text \<open>The mutex-group id a section declares: a \<^verbatim>\<open>mutex\<close> option that is not empty.\<close>

definition declared_mutex :: "config \<Rightarrow> string \<times> options \<Rightarrow> string option" where
  "declared_mutex cfg sec =
     (case section_get cfg (snd sec) ''mutex'' of
        None \<Rightarrow> None
      | Some m \<Rightarrow> if m = '''' then None else Some m)"

text \<open>
  Where a section belongs: on the parser itself when it declares no mutex id, in the
  group registered under its id otherwise.
\<close>

definition target_item :: "config \<Rightarrow> build_state \<Rightarrow> string \<times> options \<Rightarrow> item" where
  "target_item cfg st sec =
     (case declared_mutex cfg sec of
        None \<Rightarrow> Parser
      | Some m \<Rightarrow> (case mutex_group_dict st m of None \<Rightarrow> Parser | Some g \<Rightarrow> Group g))"

text \<open>The one entry a section has in the parser: its call, with the object it is in.\<close>

definition section_action :: "config \<Rightarrow> build_state \<Rightarrow> string \<times> options \<Rightarrow> item \<times> call" where
  "section_action cfg st sec = (target_item cfg st sec, fst (argument_call cfg sec))"

text \<open>The entry of the help switch, present when \<^verbatim>\<open>help_flag\<close> is not empty.\<close>

definition help_actions :: "config \<Rightarrow> (item \<times> call) list" where
  "help_actions cfg =
     (case map_of (defaults cfg) ''help_flag'' of
        None \<Rightarrow> []
      | Some help_flag \<Rightarrow> if help_flag \<noteq> '''' then [(Parser, help_call)] else [])"

text \<open>
  Every registered id names a group that exists, every group that exists is registered,
  and no group is registered under two ids.
\<close>

definition one_group_per_id :: "build_state \<Rightarrow> bool" where
  "one_group_per_id st =
     ((\<forall>m g. mutex_group_dict st m = Some g \<longrightarrow> g < group_count (parser st))
      \<and> (\<forall>g < group_count (parser st). \<exists>m. mutex_group_dict st m = Some g)
      \<and> (\<forall>m m' g. mutex_group_dict st m = Some g \<and> mutex_group_dict st m' = Some g \<longrightarrow> m = m'))"

subsection \<open>\<^verbatim>\<open>construct_and_run\<close>: assembling the command line\<close>

text \<open>
  The body of the \<^verbatim>\<open>for section in config.sections()\<close> loop (lines 300 to 312).
  \<^verbatim>\<open>' ' + new_param\<close> raises TypeError unless \<^verbatim>\<open>new_param\<close> is a str.
\<close>

definition construct_section :: "config \<Rightarrow> args \<Rightarrow> string \<Rightarrow> string \<times> options \<Rightarrow> exn + string" where
  "construct_section cfg args cmd sec =
     (if truthy (dict_get args (fst sec) PNone) then
        (let arg_flag = get_or '''' (section_get cfg (snd sec) ''flag'');
             arg_flag = (if arg_flag \<noteq> '''' then '' '' @ arg_flag else arg_flag)
         in case args (fst sec) of
              None \<Rightarrow> Inl KeyError
            | Some v \<Rightarrow>
                if \<not> (''True'' = py_str v) then
                  (case (case v of PList xs \<Rightarrow> PStr (join '' '' xs) | _ \<Rightarrow> v) of
                     PStr new_param \<Rightarrow> Inr (cmd @ arg_flag @ ('' '' @ new_param))
                   | _ \<Rightarrow> Inl TypeError)
                else Inr (cmd @ arg_flag @ ''''))
      else Inr cmd)"

fun construct_params :: "config \<Rightarrow> args \<Rightarrow> (string \<times> options) list \<Rightarrow> string \<Rightarrow> exn + string" where
  "construct_params cfg args [] cmd = Inr cmd"
| "construct_params cfg args (sec # rest) cmd =
     (case construct_section cfg args cmd sec of
        Inl e \<Rightarrow> Inl e
      | Inr cmd' \<Rightarrow> construct_params cfg args rest cmd')"

text \<open>Lines 295 to 312: the command string handed to \<^verbatim>\<open>run_command\<close>.\<close>

definition construct_cmd :: "config \<Rightarrow> args \<Rightarrow> exn + string" where
  "construct_cmd cfg args =
     (case map_of (defaults cfg) ''command'' of
        None \<Rightarrow> Inl KeyError
      | Some cmd \<Rightarrow>
          if truthy (dict_get args SHOW_COMMAND_HELP (PBool False)) then
            (case map_of (defaults cfg) ''help_flag'' of
               None \<Rightarrow> Inl KeyError
             | Some help_flag \<Rightarrow> Inr (cmd @ '' '' @ help_flag))
          else construct_params cfg args (sections cfg) cmd)"

subsection \<open>What the parser library promises for a declared argument\<close>

text \<open>
  \<^verbatim>\<open>parse_args\<close> is library code, so the namespace is an input of the model
  (\<^verbatim>\<open>parse_args\<close> of the world). What follows is the part of argparse's documented
  behaviour that the claims about the namespace rest on, as a condition that a namespace
  may or may not meet; no definition of the script depends on it.

  An argument is positional unless its name begins with \<^verbatim>\<open>-\<close>. The namespace key is
  \<^verbatim>\<open>dest\<close> when given, the name itself for a positional, and else the option string
  without leading dashes and with \<^verbatim>\<open>-\<close> turned into \<^verbatim>\<open>_\<close>.
\<close>

definition is_option_string :: "string \<Rightarrow> bool" where
  "is_option_string s = (case s of [] \<Rightarrow> False | c # _ \<Rightarrow> c = CHR ''-'')"





subsection \<open>\<^verbatim>\<open>run_command\<close>\<close>

text \<open>
  \<^verbatim>\<open>line.rstrip()\<close> on decoded text: the code points of \<^verbatim>\<open>str.isspace\<close>.
\<close>

definition unicode_isspace :: "nat \<Rightarrow> bool" where
  "unicode_isspace c =
     (c \<in> {9, 10, 11, 12, 13, 28, 29, 30, 31, 32, 133, 160, 5760, 8192, 8193, 8194, 8195,
            8196, 8197, 8198, 8199, 8200, 8201, 8202, 8232, 8233, 8239, 8287, 12288})"

definition rstrip :: "nat list \<Rightarrow> nat list" where
  "rstrip s = rev (dropWhile unicode_isspace (rev s))"

text \<open>
  The lines of \<^verbatim>\<open>print\<close>. \<open>Done\<close> is the status line, which carries the return
  status (and the elapsed time, which has no place in the model).
\<close>

datatype console_line = Running string | Line "nat list" | Done int

datatype 'a outcome = Returns 'a | Raises exn | Never

definition run_command :: "world \<Rightarrow> string \<Rightarrow> console_line list \<times> int outcome" where
  "run_command w cmd =
     (case popen w cmd of
        None \<Rightarrow> ([Running cmd], Raises OSError)
      | Some (Hangs lines) \<Rightarrow>
          (Running cmd # map (\<lambda>line. Line (rstrip (decode w line))) lines, Never)
      | Some (Exits lines retval) \<Rightarrow>
          (Running cmd # map (\<lambda>line. Line (rstrip (decode w line))) lines @ [Done retval],
           Returns retval))"

definition construct_and_run :: "world \<Rightarrow> config \<Rightarrow> args \<Rightarrow> console_line list \<times> int outcome" where
  "construct_and_run w cfg args =
     (case construct_cmd cfg args of
        Inl e \<Rightarrow> ([], Raises e)
      | Inr cmd \<Rightarrow> run_command w cmd)"

subsection \<open>\<^verbatim>\<open>main\<close>\<close>

definition DEFAULT_INI_FILE :: string where
  "DEFAULT_INI_FILE = concat
     [''\<newline>'',
      ''; The root of the app sets the application general setup (command line, title etc.)\<newline>'',
      ''; The section name MUST be 'root'\<newline>'',
      ''[root]\<newline>'',
      ''; 'command' key is mandatory.\<newline>'',
      ''command=python -m json.tool\<newline>'',
      ''; 'about' key is optional, but please provide something meaningful.\<newline>'',
      ''; Gooey supports about 4 lines of description. indent the other lines.\<newline>'',
      ''about=A json pretty print tool. It Can also validate integrity.\<newline>'',
      ''    This can be a multi-line help description\<newline>'',
      ''    Using indentation\<newline>'',
      ''; Optional: help flag: the command help flag. usually '--help' or '-h'.\<newline>'',
      ''; it will be used for executing the command's own help message\<newline>'',
      ''help_flag=--help\<newline>'',
      ''\<newline>'',
      ''; Arguments section:\<newline>'',
      '';\<newline>'',
      ''; Each command line parameter has en entry (spawned by order)\<newline>'',
      ''; 'flag': the flag to use. optional. (no 'flag' for positional arguments)\<newline>'',
      ''; positional arguments are required parameters, flags are optional.\<newline>'',
      ''; 'type' key: flag type, and argument hint.\<newline>'',
      ''; The supported types are:\<newline>'',
      '';       boolean (default),\<newline>'',
      '';       string, integer,\<newline>'',
      '';       file (read),\<newline>'',
      '';       dir (read),\<newline>'',
      '';       save (file name),\<newline>'',
      '';       choice (require 'choices' option)\<newline>'',
      ''; 'help': A help string, new lines can be used with indentation.\<newline>'',
      ''\<newline>'',
      ''; Example: full argument qualification.\<newline>'',
      ''; The section name is used as the argument title (for the GUI)\<newline>'',
      ''; 'mutex' is used to group mutually exclusive flags, using common 'mutex' key\<newline>'',
      ''; Look for other 'mutex' keys to get the idea.\<newline>'',
      ''\<newline>'',
      ''[Indentation Width]\<newline>'',
      ''flag=--indent\<newline>'',
      ''type=string\<newline>'',
      ''help=Separate items with newlines and use this number of spaces for indentation.\<newline>'',
      ''mutex=IndentSpaceOrTab\<newline>'',
      ''\<newline>'',
      ''; The indentation can be numeric\<newline>'',
      '';\<newline>'',
      '';[Indentation width]\<newline>'',
      '';flag=--indent\<newline>'',
      '';type=integer\<newline>'',
      '';default=2\<newline>'',
      '';help=Separate items with newlines and use this number of spaces for indentation.\<newline>'',
      '';mutex=IndentSpaceOrTab\<newline>'',
      ''\<newline>'',
      ''; This is just for the sake of completeness. do not set a value\<newline>'',
      ''[Test Choice (Demo)]\<newline>'',
      ''flag=--test\<newline>'',
      ''type=choice\<newline>'',
      ''help=Test choices: For completeness. Do not set.\<newline>'',
      ''    for json.tool to work, this flag should not be set\<newline>'',
      ''choices=One, Two, Three\<newline>'',
      ''\<newline>'',
      ''; Example: minimal argument qualification (type defaults to boolean)\<newline>'',
      ''[Sort Keys]\<newline>'',
      ''flag=--sort-keys\<newline>'',
      ''help=Sort the output of dictionaries alphabetically by key\<newline>'',
      ''\<newline>'',
      ''# Specify the boolean type explicitly, group using 'mutex' key\<newline>'',
      ''[Tab]\<newline>'',
      ''flag=--tab\<newline>'',
      ''type=boolean\<newline>'',
      ''help=Separate items with newlines and use tabs for indentation\<newline>'',
      ''mutex=IndentSpaceOrTab\<newline>'',
      ''\<newline>'',
      ''[No Indent]\<newline>'',
      ''flag=--no-indent\<newline>'',
      ''type=boolean\<newline>'',
      ''help=No indentation at all\<newline>'',
      ''mutex=IndentSpaceOrTab\<newline>'',
      ''\<newline>'',
      ''[Compact]\<newline>'',
      ''flag=--compact\<newline>'',
      ''type=boolean\<newline>'',
      ''help=Comact json, much less readable, shorter for serialization\<newline>'',
      ''mutex=IndentSpaceOrTab\<newline>'',
      ''\<newline>'',
      ''\<newline>'',
      ''; Positional, mandatory argument #1 (required, multiple file selection is enabled)\<newline>'',
      ''; Note that the \"file\" widget supports multiple file selection.\<newline>'',
      ''; the file names are give as a space separated string to the command.\<newline>'',
      ''[Infile]\<newline>'',
      ''type=file\<newline>'',
      ''help=Input file name (required)\<newline>'',
      ''\<newline>'',
      ''; positional #2\<newline>'',
      ''; The '--' default serves as 'no argument' here, so this argument becomes optional\<newline>'',
      ''[Outfile]\<newline>'',
      ''type=save\<newline>'',
      ''help=Output file name. Optional. can be equal to Input File name\<newline>'',
      ''default=--\<newline>'',
      ''\<newline>'']"

text \<open>\<^verbatim>\<open>s.replace(old, new)\<close> for a non-empty \<^verbatim>\<open>old\<close>; the number counts the
  characters of a match still to be skipped.\<close>

fun replace_from :: "string \<Rightarrow> string \<Rightarrow> nat \<Rightarrow> string \<Rightarrow> string" where
  "replace_from old new k [] = []"
| "replace_from old new (Suc k) (c # cs) = replace_from old new k cs"
| "replace_from old new 0 (c # cs) =
     (if prefix old (c # cs) then new @ replace_from old new (length old - 1) cs
      else c # replace_from old new 0 cs)"

definition replace :: "string \<Rightarrow> string \<Rightarrow> string \<Rightarrow> string" where
  "replace s old new = replace_from old new 0 s"

text \<open>\<^verbatim>\<open>s.rpartition(sep)[0]\<close>: what stands before the last separator, or nothing.\<close>

definition rpartition_head :: "char \<Rightarrow> string \<Rightarrow> string" where
  "rpartition_head sep s =
     (if sep \<in> set s then rev (tl (dropWhile (\<lambda>c. c \<noteq> sep) (rev s))) else [])"

definition ini_file_name :: "world \<Rightarrow> string" where
  "ini_file_name w = rpartition_head CHR ''.'' (script_name w) @ ''.ini''"

definition GUI_GENERATE_DEFAULT_ICON :: bool where
  "GUI_GENERATE_DEFAULT_ICON = True"

definition set_default_icon ::
  "world \<Rightarrow> (string \<rightharpoonup> string) \<Rightarrow> (string \<rightharpoonup> string) \<times> string list" where
  "set_default_icon w fs =
     (let icon_file = script_parent w @ ''/config_icon.png''
      in if GUI_GENERATE_DEFAULT_ICON \<and> fs icon_file = None then
           (fs(icon_file \<mapsto> icon_data w),
            [''Setting a default program icon file (config_icon.png). Replace by another icon if you wish''])
         else (fs, []))"

text \<open>
  Lines 390 to 401, up to the text that \<^verbatim>\<open>config.read_file\<close> is given: the files
  afterwards, the messages of \<^verbatim>\<open>info_box\<close>, and the text (\<open>None\<close> when
  \<^verbatim>\<open>open\<close> finds no file).
\<close>

definition load_ini :: "world \<Rightarrow> (string \<rightharpoonup> string) \<times> string list \<times> string option" where
  "load_ini w =
     (let ini_file_name = ini_file_name w;
          (fs1, msgs1) =
            (if files w ini_file_name = None then
               ((files w)(ini_file_name \<mapsto> replace DEFAULT_INI_FILE ''__PYTHON__'' (python_stem w)),
                [ini_file_name @ '' does not exist, Generated a default file''])
             else (files w, []));
          (fs2, msgs2) = set_default_icon w fs1
      in (fs2, msgs1 @ msgs2, fs2 ini_file_name))"

text \<open>
  How the program ends: \<^verbatim>\<open>sys.exit(retval)\<close>, an exception (shown by
  \<^verbatim>\<open>error_message\<close> and raised again), inside the library, or never.
\<close>

datatype ending = Exit int | Uncaught exn | Library_exit | Blocked

text \<open>
  The exit code the operating system reports for the program (CPython on a 64-bit POSIX
  system): \<^verbatim>\<open>sys.exit(n)\<close> hands \<^verbatim>\<open>n\<close> to \<^verbatim>\<open>exit\<close> as a C int, of which the
  parent sees the low eight bits (an \<^verbatim>\<open>n\<close> that does not fit a C long counts as -1);
  an exception that is not caught gives 1.
\<close>

definition exit_code :: "ending \<Rightarrow> int option" where
  "exit_code e =
     (case e of
        Exit n \<Rightarrow> Some (if - (2 ^ 63) \<le> n \<and> n < 2 ^ 63 then n mod 256 else 255)
      | Uncaught x \<Rightarrow> Some 1
      | Library_exit \<Rightarrow> None
      | Blocked \<Rightarrow> None)"

record result =
  files_after :: "string \<rightharpoonup> string"
  boxes :: "string list"
  printed :: "console_line list"
  ending :: ending

definition main :: "world \<Rightarrow> result" where
  "main w =
     (case load_ini w of (fs, msgs, text) \<Rightarrow>
        (case text of
           None \<Rightarrow> \<lparr>files_after = fs, boxes = msgs, printed = [], ending = Uncaught OSError\<rparr>
         | Some t \<Rightarrow>
        (case read_file w t of
           None \<Rightarrow> \<lparr>files_after = fs, boxes = msgs, printed = [], ending = Uncaught ConfigError\<rparr>
         | Some config \<Rightarrow>
        (case build_parser w config of
           Inl (e, shown) \<Rightarrow>
             \<lparr>files_after = fs, boxes = msgs @ shown, printed = [], ending = Uncaught e\<rparr>
         | Inr st \<Rightarrow>
        (case parse_args w (parser st) of
           None \<Rightarrow> \<lparr>files_after = fs, boxes = msgs @ notices st, printed = [],
                     ending = Library_exit\<rparr>
         | Some args \<Rightarrow>
        (case construct_and_run w config args of
           (out, Returns retval) \<Rightarrow>
             \<lparr>files_after = fs, boxes = msgs @ notices st, printed = out, ending = Exit retval\<rparr>
         | (out, Raises e) \<Rightarrow>
             \<lparr>files_after = fs, boxes = msgs @ notices st, printed = out, ending = Uncaught e\<rparr>
         | (out, Never) \<Rightarrow>
             \<lparr>files_after = fs, boxes = msgs @ notices st, printed = out, ending = Blocked\<rparr>))))))"

subsection \<open>The command line in the words of the specification\<close>

text \<open>
  The section's flag, preceded by a space when a flag is declared. As in the script,
  a flag is declared when \<^verbatim>\<open>get('flag', '')\<close> is not the empty string.
\<close>

definition declared_flag :: "config \<Rightarrow> options \<Rightarrow> string" where
  "declared_flag cfg opts =
     (case section_get cfg opts ''flag'' of
        None \<Rightarrow> ''''
      | Some f \<Rightarrow> if f = '''' then '''' else '' '' @ f)"

text \<open>The stringified value: a list joined into one space-separated string.\<close>

fun stringified :: "pyval \<Rightarrow> string" where
  "stringified (PList xs) = join '' '' xs"
| "stringified v = py_str v"

text \<open>A parsed value is present when the namespace holds a true value for the section.\<close>

definition present :: "args \<Rightarrow> string \<times> options \<Rightarrow> bool" where
  "present args sec = (case args (fst sec) of None \<Rightarrow> False | Some v \<Rightarrow> truthy v)"

definition help_selected :: "args \<Rightarrow> bool" where
  "help_selected args = truthy (dict_get args SHOW_COMMAND_HELP (PBool False))"

text \<open>As stated: every present section gives its flag and then its stringified value.\<close>

definition stated_part :: "config \<Rightarrow> args \<Rightarrow> string \<times> options \<Rightarrow> string" where
  "stated_part cfg args sec =
     declared_flag cfg (snd sec) @ '' '' @ stringified (dict_get args (fst sec) PNone)"

definition stated_command :: "string \<Rightarrow> config \<Rightarrow> args \<Rightarrow> string" where
  "stated_command base cfg args =
     base @ concat (map (stated_part cfg args) (filter (present args) (sections cfg)))"

text \<open>As amended: a value whose \<^verbatim>\<open>str\<close> is \<^verbatim>\<open>True\<close> gives the flag alone.\<close>

definition amended_part :: "config \<Rightarrow> args \<Rightarrow> string \<times> options \<Rightarrow> string" where
  "amended_part cfg args sec =
     declared_flag cfg (snd sec) @
     (let v = dict_get args (fst sec) PNone
      in if py_str v = ''True'' then '''' else '' '' @ stringified v)"

definition amended_command :: "string \<Rightarrow> config \<Rightarrow> args \<Rightarrow> string" where
  "amended_command base cfg args =
     base @ concat (map (amended_part cfg args) (filter (present args) (sections cfg)))"

subsection \<open>Example data: the default ini file\<close>

text \<open>The configuration that \<^verbatim>\<open>DEFAULT_INI_FILE\<close> (and \<^verbatim>\<open>gucli.ini\<close>) reads as.\<close>

definition json_tool :: config where
  "json_tool = \<lparr>
     defaults =
       [(''command'', ''python -m json.tool''),
        (''about'', ''A json pretty print tool. It Can also validate integrity.\<newline>This can be a multi-line help description\<newline>Using indentation''),
        (''help_flag'', ''--help'')],
     sections =
       [(''Indentation Width'',
          [(''flag'', ''--indent''), (''type'', ''string''),
           (''help'', ''Separate items with newlines and use this number of spaces for indentation.''),
           (''mutex'', ''IndentSpaceOrTab'')]),
        (''Test Choice (Demo)'',
          [(''flag'', ''--test''), (''type'', ''choice''),
           (''help'', ''Test choices: For completeness. Do not set.\<newline>for json.tool to work, this flag should not be set''),
           (''choices'', ''One, Two, Three'')]),
        (''Sort Keys'',
          [(''flag'', ''--sort-keys''),
           (''help'', ''Sort the output of dictionaries alphabetically by key'')]),
        (''Tab'',
          [(''flag'', ''--tab''), (''type'', ''boolean''),
           (''help'', ''Separate items with newlines and use tabs for indentation''),
           (''mutex'', ''IndentSpaceOrTab'')]),
        (''No Indent'',
          [(''flag'', ''--no-indent''), (''type'', ''boolean''),
           (''help'', ''No indentation at all''),
           (''mutex'', ''IndentSpaceOrTab'')]),
        (''Compact'',
          [(''flag'', ''--compact''), (''type'', ''boolean''),
           (''help'', ''Comact json, much less readable, shorter for serialization''),
           (''mutex'', ''IndentSpaceOrTab'')]),
        (''Infile'',
          [(''type'', ''file''), (''help'', ''Input file name (required)'')]),
        (''Outfile'',
          [(''type'', ''save''),
           (''help'', ''Output file name. Optional. can be equal to Input File name''),
           (''default'', ''--'')])]\<rparr>"

definition sort_keys_section :: "string \<times> options" where
  "sort_keys_section =
     (''Sort Keys'',
      [(''flag'', ''--sort-keys''),
       (''help'', ''Sort the output of dictionaries alphabetically by key'')])"

definition outfile_section :: "string \<times> options" where
  "outfile_section =
     (''Outfile'',
      [(''type'', ''save''),
       (''help'', ''Output file name. Optional. can be equal to Input File name''),
       (''default'', ''--'')])"

text \<open>Sorted output of two input files, one of them with a space in its name.\<close>

definition args_sorted :: args where
  "args_sorted =
     [''Sort Keys'' \<mapsto> PBool True, ''Tab'' \<mapsto> PNone,
      ''Infile'' \<mapsto> PList [''a.json'', ''b c.json''], ''Outfile'' \<mapsto> PStr ''--'',
      SHOW_COMMAND_HELP \<mapsto> PBool False]"

text \<open>An output file name made of shell metacharacters.\<close>

definition args_meta :: args where
  "args_meta =
     [''Infile'' \<mapsto> PList [''a.json''], ''Outfile'' \<mapsto> PStr ''$(x) \"q\"; y'']"

text \<open>A string-typed option whose value is the text \<^verbatim>\<open>True\<close>.\<close>

definition args_true_text :: args where
  "args_true_text = [''Indentation Width'' \<mapsto> PStr ''True'', ''Infile'' \<mapsto> PList [''a.json'']]"

definition args_help :: args where
  "args_help =
     [''Sort Keys'' \<mapsto> PBool True, ''Infile'' \<mapsto> PList [''a.json''],
      SHOW_COMMAND_HELP \<mapsto> PBool True]"

text \<open>
  A first run of \<^verbatim>\<open>json_tool.pyw\<close>: no ini file yet, the default text reads as
  \<open>json_tool\<close>, the library accepts every declaration, the form is filled as in
  \<open>args_sorted\<close>, and the command fails on its input with status 1.
\<close>

definition json_world :: world where
  "json_world = \<lparr>
     files = Map.empty,
     script_name = ''json_tool.pyw'',
     script_parent = ''/opt/tools'',
     python_stem = ''python3'',
     icon_data = ''PNG'',
     read_file = (\<lambda>t. if t = DEFAULT_INI_FILE then Some json_tool else None),
     refuses = (\<lambda>it p c. None),
     parse_args = (\<lambda>p. Some args_sorted),
     popen = (\<lambda>cmd. if cmd = ''python -m json.tool --sort-keys a.json b c.json --''
                     then Some (Exits [''Expecting value: line 1 column 1 (char 0)  ''] 1)
                     else None),
     decode = map of_char\<rparr>"

text \<open>The same run with a command that is ended by signal 15 before it writes anything.\<close>

definition killed_world :: world where
  "killed_world = json_world\<lparr>popen := (\<lambda>cmd. Some (Exits [] (- 15)))\<rparr>"

text \<open>A choice whose \<^verbatim>\<open>choices\<close> option is empty, and a type the compiler does not know.\<close>

definition empty_choice_section :: "string \<times> options" where
  "empty_choice_section = (''Pick'', [(''flag'', ''--pick''), (''type'', ''choice''), (''choices'', '''')])"

definition float_section :: "string \<times> options" where
  "float_section = (''Precision'', [(''flag'', ''--prec''), (''type'', ''float'')])"

text \<open>Two options of one mutex group with an ungrouped one between them.\<close>

definition tab_section :: "string \<times> options" where
  "tab_section =
     (''Tab'',
      [(''flag'', ''--tab''), (''type'', ''boolean''),
       (''help'', ''Separate items with newlines and use tabs for indentation''),
       (''mutex'', ''IndentSpaceOrTab'')])"

definition no_indent_section :: "string \<times> options" where
  "no_indent_section =
     (''No Indent'',
      [(''flag'', ''--no-indent''), (''type'', ''boolean''),
       (''help'', ''No indentation at all''),
       (''mutex'', ''IndentSpaceOrTab'')])"

definition mutex_tool :: config where
  "mutex_tool = json_tool\<lparr>sections := [tab_section, sort_keys_section, no_indent_section]\<rparr>"

text \<open>The choices lists that the declared arguments of a built parser carry, in order.\<close>

definition passed_choices :: "raised + build_state \<Rightarrow> string list option list" where
  "passed_choices r =
     (case r of
        Inl e \<Rightarrow> []
      | Inr st \<Rightarrow> map (\<lambda>a. arg_choices (snd (snd a))) (actions (parser st)))"

definition test_choice_section :: "string \<times> options" where
  "test_choice_section =
     (''Test Choice (Demo)'',
      [(''flag'', ''--test''), (''type'', ''choice''),
       (''help'', ''Test choices: For completeness. Do not set.\<newline>for json.tool to work, this flag should not be set''),
       (''choices'', ''One, Two, Three'')])"

text \<open>The same installation when the help page of the command is asked for.\<close>

definition help_world :: world where
  "help_world = json_world
     \<lparr>parse_args := (\<lambda>p. Some args_help),
      popen := (\<lambda>cmd. if cmd = ''python -m json.tool --help''
                      then Some (Exits [''usage: python -m json.tool [-h] [infile] [outfile]\<newline>''] 0)
                      else None)\<rparr>"









text \<open>
  A library that refuses as argparse does in the cases the script can run into: an empty
  name, a name without leading \<^verbatim>\<open>-\<close> together with \<^verbatim>\<open>dest\<close>, a positional
  argument for a mutually exclusive group, an option string that is already declared.
\<close>

definition argparse_refuses :: "item \<Rightarrow> gooey_parser \<Rightarrow> call \<Rightarrow> exn option" where
  "argparse_refuses it p c =
     (if fst c = [] then Some IndexError
      else if \<not> is_option_string (fst c) then
        (if arg_dest (snd c) \<noteq> None then Some ValueError
         else if it \<noteq> Parser then Some ValueError
         else None)
      else if fst c \<in> set (map (\<lambda>a. fst (snd a)) (actions p)) then Some ArgumentError
      else None)"

definition strict_world :: world where
  "strict_world = json_world\<lparr>refuses := argparse_refuses\<rparr>"

text \<open>Input and output file as positional arguments that exclude each other.\<close>

definition positional_mutex_tool :: config where
  "positional_mutex_tool = json_tool
     \<lparr>sections := [(''Infile'', [(''type'', ''file''), (''mutex'', ''InOrOut'')]),
                   (''Outfile'', [(''type'', ''save''), (''mutex'', ''InOrOut'')])]\<rparr>"

section \<open>Properties\<close>

subsection \<open>Lists of characters\<close>

lemma sublist_in_left: "sublist x ys \<Longrightarrow> sublist x (ps @ ys)"
  unfolding sublist_def by (metis append_assoc)

lemma sublist_concat_member: "x \<in> set xs \<Longrightarrow> sublist x (concat xs)"
proof (induction xs)
  case Nil
  then show ?case by simp
next
  case (Cons a xs)
  show ?case
  proof (cases "x = a")
    case True
    then show ?thesis by simp
  next
    case False
    with Cons have "sublist x (concat xs)" by simp
    then show ?thesis by (simp add: sublist_in_left)
  qed
qed

lemma sublist_join_member: "x \<in> set xs \<Longrightarrow> sublist x (join sep xs)"
proof (induction sep xs rule: join.induct)
  case (1 sep)
  then show ?case by simp
next
  case (2 sep y)
  then show ?case by simp
next
  case (3 sep a b ys)
  show ?case
  proof (cases "x = a")
    case True
    then show ?thesis by simp
  next
    case False
    with 3 have "sublist x (join sep (b # ys))" by simp
    then have "sublist x (sep @ join sep (b # ys))" by (rule sublist_in_left)
    then have "sublist x (a @ sep @ join sep (b # ys))" by (rule sublist_in_left)
    then show ?thesis by simp
  qed
qed

subsection \<open>The loop of \<^verbatim>\<open>construct_and_run\<close>\<close>

lemma construct_section_present:
  "present args sec \<Longrightarrow> construct_section cfg args cmd sec = Inr (cmd @ amended_part cfg args sec)"
  by (cases "args (fst sec)"; cases "the (args (fst sec))")
     (auto simp: present_def construct_section_def amended_part_def declared_flag_def
        dict_get_def get_or_def Let_def split: option.splits)

lemma construct_section_absent:
  "\<not> present args sec \<Longrightarrow> construct_section cfg args cmd sec = Inr cmd"
  by (auto simp: present_def construct_section_def dict_get_def split: option.splits)

lemma construct_params_eq:
  "construct_params cfg args secs cmd =
     Inr (cmd @ concat (map (amended_part cfg args) (filter (present args) secs)))"
proof (induction secs arbitrary: cmd)
  case Nil
  show ?case by simp
next
  case (Cons sec rest)
  show ?case
  proof (cases "present args sec")
    case True
    then show ?thesis by (simp add: construct_section_present Cons.IH)
  next
    case False
    then show ?thesis by (simp add: construct_section_absent Cons.IH)
  qed
qed

lemma amended_part_verbatim:
  assumes "args (fst sec) = Some v" and "py_str v \<noteq> ''True''"
  shows "sublist ('' '' @ stringified v) (amended_part cfg args sec)"
proof -
  have "amended_part cfg args sec = declared_flag cfg (snd sec) @ ('' '' @ stringified v)"
    using assms by (simp add: amended_part_def dict_get_def)
  then show ?thesis by (simp only: sublist_append_leftI)
qed

lemma section_get_sections_irrelevant:
  "section_get (cfg\<lparr>sections := secs\<rparr>) opts key = section_get cfg opts key"
  by (simp add: section_get_def split: option.splits)

lemma amended_part_sections_irrelevant:
  "amended_part (cfg\<lparr>sections := secs\<rparr>) args = amended_part cfg args"
  by (rule ext) (simp add: amended_part_def declared_flag_def section_get_sections_irrelevant)

lemmas json_tool_eval =
  json_tool_def dict_get_def get_or_def section_get_def declared_flag_def present_def
  amended_part_def amended_command_def help_selected_def
  SHOW_COMMAND_HELP_def construct_cmd_def construct_section_def

text \<open>
  C1 (as stated). The assembled command is the base command followed, for each section
  in declaration order whose parsed value is present, by the section's flag and then the
  stringified value. It fails for a boolean flag that is set: the script appends
  \<^verbatim>\<open>--sort-keys\<close> alone, the statement asks for \<^verbatim>\<open>--sort-keys True\<close>.
\<close>

theorem construct_cmd_not_as_stated:
  "construct_cmd json_tool args_sorted
     \<noteq> Inr (stated_command ''python -m json.tool'' json_tool args_sorted)"
  by (simp add: json_tool_eval stated_command_def stated_part_def args_sorted_def)

text \<open>
  C1 (amended). When the command-help option is not selected, the assembled command is
  the base command followed, for each section in declaration order whose parsed value
  is present, by the section's flag (preceded by a space, when a flag is declared) and
  then, unless the value's \<^verbatim>\<open>str\<close> is exactly \<^verbatim>\<open>True\<close>, by a space and the
  stringified value, a list being joined into one space-separated string.
\<close>

theorem construct_cmd_schema_order:
  assumes "map_of (defaults cfg) ''command'' = Some base"
    and "\<not> help_selected args"
  shows "construct_cmd cfg args = Inr (amended_command base cfg args)"
  using assms
  by (simp add: construct_cmd_def help_selected_def amended_command_def construct_params_eq)

theorem construct_cmd_schema_order_witness:
  "map_of (defaults json_tool) ''command'' = Some ''python -m json.tool''
   \<and> \<not> help_selected args_sorted
   \<and> construct_cmd json_tool args_sorted
       = Inr (amended_command ''python -m json.tool'' json_tool args_sorted)
   \<and> amended_command ''python -m json.tool'' json_tool args_sorted
       = ''python -m json.tool --sort-keys a.json b c.json --''"
proof -
  have h1: "map_of (defaults json_tool) ''command'' = Some ''python -m json.tool''"
    by (simp add: json_tool_def)
  have h2: "\<not> help_selected args_sorted"
    by (simp add: help_selected_def args_sorted_def dict_get_def)
  have h3: "amended_command ''python -m json.tool'' json_tool args_sorted
              = ''python -m json.tool --sort-keys a.json b c.json --''"
    by (simp add: json_tool_eval args_sorted_def)
  show ?thesis
    using construct_cmd_schema_order [OF h1 h2] h1 h2 h3 by simp
qed

text \<open>
  C7. No escaping or quoting: when a section's value is appended (it is true and its
  \<^verbatim>\<open>str\<close> is not \<^verbatim>\<open>True\<close>), the assembled command holds a space followed by the
  value's characters exactly as they are, whatever they are; for a list, every file
  name of the list is there unchanged.
\<close>

theorem construct_cmd_verbatim:
  assumes "map_of (defaults cfg) ''command'' = Some base"
    and "\<not> help_selected args"
    and "sec \<in> set (sections cfg)"
    and "args (fst sec) = Some v"
    and "truthy v"
    and "py_str v \<noteq> ''True''"
  shows "\<exists>cmd. construct_cmd cfg args = Inr cmd
           \<and> sublist ('' '' @ stringified v) cmd
           \<and> (\<forall>xs x. v = PList xs \<and> x \<in> set xs \<longrightarrow> sublist x cmd)"
proof -
  let ?parts = "map (amended_part cfg args) (filter (present args) (sections cfg))"
  let ?cmd = "base @ concat ?parts"
  have run: "construct_cmd cfg args = Inr ?cmd"
    using assms(1,2)
    by (simp add: construct_cmd_def help_selected_def construct_params_eq)
  have "present args sec" using assms(4,5) by (simp add: present_def)
  with assms(3) have "amended_part cfg args sec \<in> set ?parts" by simp
  then have "sublist (amended_part cfg args sec) (concat ?parts)"
    by (rule sublist_concat_member)
  then have part: "sublist (amended_part cfg args sec) ?cmd"
    by (rule sublist_in_left)
  have val: "sublist ('' '' @ stringified v) ?cmd"
    using amended_part_verbatim [where args=args and sec=sec and v=v and cfg=cfg,
        OF assms(4) assms(6)] part
    by (rule sublist_order.order_trans)
  have "sublist x ?cmd" if "v = PList xs" "x \<in> set xs" for xs x
  proof -
    have "sublist x (join '' '' xs)" using that(2) by (rule sublist_join_member)
    then have "sublist x ('' '' @ stringified v)"
      using that(1) by (simp add: sublist_Cons_right)
    then show ?thesis using val by (rule sublist_order.order_trans)
  qed
  with run val show ?thesis by blast
qed

theorem construct_cmd_verbatim_witness:
  "outfile_section \<in> set (sections json_tool)
   \<and> args_meta (fst outfile_section) = Some (PStr ''$(x) \"q\"; y'')
   \<and> construct_cmd json_tool args_meta = Inr ''python -m json.tool a.json $(x) \"q\"; y''
   \<and> (\<exists>cmd. construct_cmd json_tool args_meta = Inr cmd \<and> sublist '' $(x) \"q\"; y'' cmd)"
proof -
  have h1: "map_of (defaults json_tool) ''command'' = Some ''python -m json.tool''"
    by (simp add: json_tool_def)
  have h2: "\<not> help_selected args_meta"
    by (simp add: help_selected_def args_meta_def dict_get_def SHOW_COMMAND_HELP_def)
  have h3: "outfile_section \<in> set (sections json_tool)"
    by (simp add: json_tool_def outfile_section_def)
  have h4: "args_meta (fst outfile_section) = Some (PStr ''$(x) \"q\"; y'')"
    by (simp add: args_meta_def outfile_section_def)
  have h5: "truthy (PStr ''$(x) \"q\"; y'')" by simp
  have h6: "py_str (PStr ''$(x) \"q\"; y'') \<noteq> ''True''" by simp
  have run: "construct_cmd json_tool args_meta = Inr ''python -m json.tool a.json $(x) \"q\"; y''"
    by (simp add: json_tool_eval args_meta_def)
  show ?thesis
    using construct_cmd_verbatim [where cfg=json_tool and args=args_meta and sec=outfile_section
        and v="PStr ''$(x) \"q\"; y''", OF h1 h2 h3 h4 h5 h6] h3 h4 run
    by simp
qed

text \<open>
  C8. A value whose \<^verbatim>\<open>str\<close> is exactly \<^verbatim>\<open>True\<close> is the boolean \<^verbatim>\<open>True\<close> or
  the text \<^verbatim>\<open>True\<close> of a string or choice argument; for both the loop appends the
  section's flag and nothing for the value.
\<close>

theorem construct_section_True_flag_only:
  assumes "args (fst sec) = Some v" and "py_str v = ''True''"
  shows "(v = PBool True \<or> v = PStr ''True'')
         \<and> construct_section cfg args cmd sec = Inr (cmd @ declared_flag cfg (snd sec))"
proof -
  have v: "v = PBool True \<or> v = PStr ''True''"
    using assms(2) by (cases v) (auto split: if_splits)
  then have "present args sec" using assms(1) by (auto simp: present_def)
  then have "construct_section cfg args cmd sec = Inr (cmd @ amended_part cfg args sec)"
    by (rule construct_section_present)
  moreover have "amended_part cfg args sec = declared_flag cfg (snd sec)"
    using assms by (simp add: amended_part_def dict_get_def)
  ultimately show ?thesis using v by simp
qed

theorem construct_section_True_flag_only_witness:
  "args_true_text ''Indentation Width'' = Some (PStr ''True'')
   \<and> construct_section json_tool args_true_text ''python -m json.tool''
        (''Indentation Width'', [(''flag'', ''--indent''), (''type'', ''string'')])
       = Inr ''python -m json.tool --indent''
   \<and> construct_cmd json_tool args_true_text = Inr ''python -m json.tool --indent a.json''"
proof -
  let ?sec = "(''Indentation Width'', [(''flag'', ''--indent''), (''type'', ''string'')])"
  have h1: "args_true_text (fst ?sec) = Some (PStr ''True'')"
    by (simp add: args_true_text_def)
  have h2: "py_str (PStr ''True'') = ''True''" by simp
  have run: "construct_cmd json_tool args_true_text = Inr ''python -m json.tool --indent a.json''"
    by (simp add: json_tool_eval args_true_text_def)
  show ?thesis
    using construct_section_True_flag_only [where args=args_true_text and sec="?sec"
        and v="PStr ''True''" and cfg=json_tool and cmd="''python -m json.tool''", OF h1 h2]
      h1 run
    by (simp add: declared_flag_def section_get_def)
qed

text \<open>
  C9. A section whose parsed value is false (\<^verbatim>\<open>False\<close>, \<^verbatim>\<open>None\<close> or no entry at
  all, the empty string, the empty list) adds nothing: the loop leaves the command as it
  is, and the assembled command is the one of the configuration without that section.
\<close>

theorem construct_cmd_omits_falsy:
  assumes "sections cfg = pre @ sec # post"
    and "dict_get args (fst sec) PNone \<in> {PBool False, PNone, PStr '''', PList []}"
  shows "construct_section cfg args cmd sec = Inr cmd
         \<and> construct_cmd cfg args = construct_cmd (cfg\<lparr>sections := pre @ post\<rparr>) args"
proof -
  have absent: "\<not> present args sec"
    using assms(2) by (auto simp: present_def dict_get_def split: option.splits)
  then have step: "construct_section cfg args cmd sec = Inr cmd"
    by (rule construct_section_absent)
  have "construct_params cfg args (sections cfg) c
        = construct_params (cfg\<lparr>sections := pre @ post\<rparr>) args (pre @ post) c" for c
    using absent assms(1)
    by (simp add: construct_params_eq amended_part_sections_irrelevant)
  then have "construct_cmd cfg args = construct_cmd (cfg\<lparr>sections := pre @ post\<rparr>) args"
    by (simp add: construct_cmd_def split: option.splits)
  with step show ?thesis by simp
qed

theorem construct_cmd_omits_falsy_witness:
  "sections (json_tool\<lparr>sections := [sort_keys_section, outfile_section]\<rparr>)
     = [] @ sort_keys_section # [outfile_section]
   \<and> dict_get args_meta (fst sort_keys_section) PNone = PNone
   \<and> construct_section (json_tool\<lparr>sections := [sort_keys_section, outfile_section]\<rparr>)
        args_meta ''python -m json.tool'' sort_keys_section = Inr ''python -m json.tool''
   \<and> construct_cmd (json_tool\<lparr>sections := [sort_keys_section, outfile_section]\<rparr>) args_meta
       = Inr ''python -m json.tool $(x) \"q\"; y''"
proof -
  let ?cfg = "json_tool\<lparr>sections := [sort_keys_section, outfile_section]\<rparr>"
  have h1: "sections ?cfg = [] @ sort_keys_section # [outfile_section]" by simp
  have v: "dict_get args_meta (fst sort_keys_section) PNone = PNone"
    by (simp add: dict_get_def args_meta_def sort_keys_section_def)
  then have h2: "dict_get args_meta (fst sort_keys_section) PNone
                   \<in> {PBool False, PNone, PStr '''', PList []}"
    by simp
  have run: "construct_cmd (?cfg\<lparr>sections := [] @ [outfile_section]\<rparr>) args_meta
               = Inr ''python -m json.tool $(x) \"q\"; y''"
    by (simp add: json_tool_eval args_meta_def outfile_section_def)
  show ?thesis
    using construct_cmd_omits_falsy [where cfg="?cfg" and pre="[]" and sec=sort_keys_section
        and post="[outfile_section]" and args=args_meta and cmd="''python -m json.tool''",
        OF h1 h2] h1 v run
    by simp
qed

text \<open>
  C10. When the show-command-help option is selected, the command that is executed is the
  base command, a space and the configured help flag: \<^verbatim>\<open>construct_and_run\<close> does
  what \<^verbatim>\<open>run_command\<close> does on that string, whatever the other parsed values are.
\<close>

theorem construct_and_run_help:
  assumes "help_selected args"
    and "map_of (defaults cfg) ''command'' = Some base"
    and "map_of (defaults cfg) ''help_flag'' = Some help_flag"
  shows "construct_and_run w cfg args = run_command w (base @ '' '' @ help_flag)
         \<and> construct_cmd cfg args = Inr (base @ '' '' @ help_flag)
         \<and> (\<forall>args'. help_selected args' \<longrightarrow>
               construct_and_run w cfg args' = construct_and_run w cfg args)"
  using assms by (simp add: construct_and_run_def construct_cmd_def help_selected_def)

theorem construct_and_run_help_witness:
  "help_selected args_help
   \<and> construct_and_run help_world json_tool args_help
       = ([Running ''python -m json.tool --help'',
           Line (map of_char ''usage: python -m json.tool [-h] [infile] [outfile]''),
           Done 0], Returns 0)
   \<and> construct_and_run help_world json_tool [SHOW_COMMAND_HELP \<mapsto> PBool True]
       = construct_and_run help_world json_tool args_help"
proof -
  have h1: "help_selected args_help"
    by (simp add: help_selected_def args_help_def dict_get_def)
  have h1': "help_selected [SHOW_COMMAND_HELP \<mapsto> PBool True]"
    by (simp add: help_selected_def dict_get_def)
  have h2: "map_of (defaults json_tool) ''command'' = Some ''python -m json.tool''"
    by (simp add: json_tool_def)
  have h3: "map_of (defaults json_tool) ''help_flag'' = Some ''--help''"
    by (simp add: json_tool_def)
  have r: "run_command help_world ''python -m json.tool --help''
             = ([Running ''python -m json.tool --help'',
                 Line (map of_char ''usage: python -m json.tool [-h] [infile] [outfile]''),
                 Done 0], Returns 0)"
    by (simp add: run_command_def help_world_def json_world_def rstrip_def unicode_isspace_def)
  show ?thesis
    using construct_and_run_help [OF h1 h2 h3, of help_world] h1 h1' r by simp
qed

subsection \<open>Mutually exclusive groups\<close>

lemma select_global:
  "declared_mutex cfg sec = None \<Longrightarrow> select_parser_group cfg sec groups p = (Parser, groups, p)"
  by (simp add: declared_mutex_def select_parser_group_def split: option.splits if_splits)

lemma select_new:
  "declared_mutex cfg sec = Some m \<Longrightarrow> groups m = None \<Longrightarrow>
   select_parser_group cfg sec groups p
     = (Group (group_count p), groups(m \<mapsto> group_count p), p\<lparr>group_count := Suc (group_count p)\<rparr>)"
  by (simp add: declared_mutex_def select_parser_group_def split: option.splits if_splits)

lemma select_old:
  "declared_mutex cfg sec = Some m \<Longrightarrow> groups m = Some g \<Longrightarrow>
   select_parser_group cfg sec groups p = (Group g, groups, p)"
  by (auto simp: declared_mutex_def select_parser_group_def split: option.splits if_splits)

lemma add_argument_Inr:
  assumes "add_argument w cfg st sec = Inr st'"
    and "select_parser_group cfg sec (mutex_group_dict st) (parser st) = (item, groups, p)"
  shows "st' = \<lparr>parser = p\<lparr>actions := actions p @ [(item, fst (argument_call cfg sec))]\<rparr>,
               mutex_group_dict = groups,
               notices = notices st @ snd (argument_call cfg sec)\<rparr>"
  using assms by (auto simp: add_argument_def Let_def case_prod_beta split: option.splits)

lemma add_argument_notices:
  assumes "add_argument w cfg st sec = Inr st'"
  shows "notices st' = notices st @ snd (argument_call cfg sec)"
proof -
  obtain item groups p
    where "select_parser_group cfg sec (mutex_group_dict st) (parser st) = (item, groups, p)"
    by (cases "select_parser_group cfg sec (mutex_group_dict st) (parser st)")
  from add_argument_Inr [OF assms this] show ?thesis by simp
qed

lemma add_argument_global:
  assumes "declared_mutex cfg sec = None" and "add_argument w cfg st sec = Inr st'"
  shows "actions (parser st') = actions (parser st) @ [(Parser, fst (argument_call cfg sec))]"
    and "mutex_group_dict st' = mutex_group_dict st"
    and "group_count (parser st') = group_count (parser st)"
  using add_argument_Inr [OF assms(2) select_global [OF assms(1)]] by simp_all

lemma add_argument_new:
  assumes "declared_mutex cfg sec = Some m" and "mutex_group_dict st m = None"
    and "add_argument w cfg st sec = Inr st'"
  shows "actions (parser st')
           = actions (parser st) @ [(Group (group_count (parser st)), fst (argument_call cfg sec))]"
    and "mutex_group_dict st' = (mutex_group_dict st)(m \<mapsto> group_count (parser st))"
    and "group_count (parser st') = Suc (group_count (parser st))"
  using add_argument_Inr [OF assms(3) select_new [where groups="mutex_group_dict st" and p="parser st", OF assms(1,2)]] by simp_all

lemma add_argument_old:
  assumes "declared_mutex cfg sec = Some m" and "mutex_group_dict st m = Some g"
    and "add_argument w cfg st sec = Inr st'"
  shows "actions (parser st') = actions (parser st) @ [(Group g, fst (argument_call cfg sec))]"
    and "mutex_group_dict st' = mutex_group_dict st"
    and "group_count (parser st') = group_count (parser st)"
  using add_argument_Inr [OF assms(3) select_old [where groups="mutex_group_dict st" and p="parser st", OF assms(1,2)]] by simp_all

lemma mutex_cases:
  obtains (global) "declared_mutex cfg sec = None"
  | (new) k where "declared_mutex cfg sec = Some k" "mutex_group_dict st k = None"
  | (old) k h where "declared_mutex cfg sec = Some k" "mutex_group_dict st k = Some h"
  by (cases "declared_mutex cfg sec"; cases "mutex_group_dict st (the (declared_mutex cfg sec))") auto

lemma add_argument_one_group_per_id:
  assumes "one_group_per_id st" and ok: "add_argument w cfg st sec = Inr st'"
  shows "one_group_per_id st'"
proof (cases rule: mutex_cases [where cfg=cfg and sec=sec and st=st])
  case global
  then show ?thesis using assms(1) by (simp add: one_group_per_id_def add_argument_global [OF _ ok])
next
  case (new k)
  have lt: "\<And>m g. mutex_group_dict st m = Some g \<Longrightarrow> g < group_count (parser st)"
    using assms(1) by (simp add: one_group_per_id_def)
  have ex: "\<And>g. g < group_count (parser st) \<Longrightarrow> \<exists>m. mutex_group_dict st m = Some g"
    using assms(1) by (simp add: one_group_per_id_def)
  have inj: "\<And>m m' g. mutex_group_dict st m = Some g \<Longrightarrow> mutex_group_dict st m' = Some g \<Longrightarrow> m = m'"
    using assms(1) by (auto simp: one_group_per_id_def)
  show ?thesis
    unfolding one_group_per_id_def add_argument_new [OF new ok]
  proof (intro conjI allI impI)
    fix m g assume "((mutex_group_dict st)(k \<mapsto> group_count (parser st))) m = Some g"
    then show "g < Suc (group_count (parser st))"
      using lt by (auto simp: less_Suc_eq split: if_splits)
  next
    fix g assume "g < Suc (group_count (parser st))"
    then consider "g = group_count (parser st)" | "g < group_count (parser st)" by linarith
    then show "\<exists>m. ((mutex_group_dict st)(k \<mapsto> group_count (parser st))) m = Some g"
    proof cases
      case 1
      then show ?thesis by (intro exI [of _ k]) simp
    next
      case 2
      then obtain m where m: "mutex_group_dict st m = Some g" using ex by blast
      with new(2) have "m \<noteq> k" by auto
      with m show ?thesis by (intro exI [of _ m]) simp
    qed
  next
    fix m m' g
    assume "((mutex_group_dict st)(k \<mapsto> group_count (parser st))) m = Some g
            \<and> ((mutex_group_dict st)(k \<mapsto> group_count (parser st))) m' = Some g"
    then show "m = m'"
      using lt inj by (auto split: if_splits)
  qed
next
  case (old k h)
  then show ?thesis using assms(1) by (simp add: one_group_per_id_def add_argument_old [OF _ _ ok])
qed

lemma add_argument_dict:
  assumes "add_argument w cfg st sec = Inr st'" and "mutex_group_dict st m = Some g"
  shows "mutex_group_dict st' m = Some g"
proof (cases rule: mutex_cases [where cfg=cfg and sec=sec and st=st])
  case global
  then show ?thesis using assms by (simp add: add_argument_global)
next
  case (new k)
  with assms(2) have "m \<noteq> k" by auto
  then show ?thesis using assms new by (simp add: add_argument_new)
next
  case (old k h)
  then show ?thesis using assms by (simp add: add_argument_old)
qed

lemma add_argument_count:
  assumes "add_argument w cfg st sec = Inr st'"
  shows "group_count (parser st) \<le> group_count (parser st')"
  by (cases rule: mutex_cases [where cfg=cfg and sec=sec and st=st])
     (simp_all add: add_argument_global [OF _ assms] add_argument_new [OF _ _ assms]
        add_argument_old [OF _ _ assms])

text \<open>One step of the loop: the call goes to one object, the one the section belongs to.\<close>

lemma add_argument_action:
  assumes "add_argument w cfg st sec = Inr st'"
  shows "actions (parser st') = actions (parser st) @ [section_action cfg st' sec]"
    and "\<forall>m. declared_mutex cfg sec = Some m \<longrightarrow> (\<exists>g. mutex_group_dict st' m = Some g)"
proof -
  show "actions (parser st') = actions (parser st) @ [section_action cfg st' sec]"
  proof (cases rule: mutex_cases [where cfg=cfg and sec=sec and st=st])
    case global
    then show ?thesis
      by (simp add: add_argument_global [OF _ assms] section_action_def target_item_def)
  next
    case (new k)
    then show ?thesis
      by (simp add: add_argument_new [OF _ _ assms] section_action_def target_item_def)
  next
    case (old k h)
    then show ?thesis
      by (simp add: add_argument_old [OF _ _ assms] section_action_def target_item_def)
  qed
  show "\<forall>m. declared_mutex cfg sec = Some m \<longrightarrow> (\<exists>g. mutex_group_dict st' m = Some g)"
  proof (cases rule: mutex_cases [where cfg=cfg and sec=sec and st=st])
    case global
    then show ?thesis by simp
  next
    case (new k)
    then show ?thesis by (simp add: add_argument_new [OF _ _ assms])
  next
    case (old k h)
    then show ?thesis by (simp add: add_argument_old [OF _ _ assms])
  qed
qed

lemma section_action_later:
  assumes "\<forall>m. declared_mutex cfg sec = Some m \<longrightarrow> (\<exists>g. mutex_group_dict st m = Some g)"
    and "\<And>m g. mutex_group_dict st m = Some g \<Longrightarrow> mutex_group_dict st' m = Some g"
  shows "section_action cfg st' sec = section_action cfg st sec"
proof (cases "declared_mutex cfg sec")
  case None
  then show ?thesis by (simp add: section_action_def target_item_def)
next
  case (Some m)
  with assms(1) obtain g where g: "mutex_group_dict st m = Some g" by auto
  then have "mutex_group_dict st' m = Some g" by (rule assms(2))
  with g Some show ?thesis by (simp add: section_action_def target_item_def)
qed

lemma add_arguments_dict:
  "add_arguments w cfg st secs = Inr st' \<Longrightarrow> mutex_group_dict st m = Some g
   \<Longrightarrow> mutex_group_dict st' m = Some g"
proof (induction secs arbitrary: st)
  case Nil
  then show ?case by simp
next
  case (Cons sec rest)
  from Cons.prems(1) obtain st1 where s1: "add_argument w cfg st sec = Inr st1"
    and r: "add_arguments w cfg st1 rest = Inr st'"
    by (auto split: sum.splits)
  from s1 Cons.prems(2) have "mutex_group_dict st1 m = Some g" by (rule add_argument_dict)
  with r show ?case by (rule Cons.IH)
qed

lemma add_arguments_one_group_per_id:
  "add_arguments w cfg st secs = Inr st' \<Longrightarrow> one_group_per_id st \<Longrightarrow> one_group_per_id st'"
proof (induction secs arbitrary: st)
  case Nil
  then show ?case by simp
next
  case (Cons sec rest)
  from Cons.prems(1) obtain st1 where s1: "add_argument w cfg st sec = Inr st1"
    and r: "add_arguments w cfg st1 rest = Inr st'"
    by (auto split: sum.splits)
  from Cons.prems(2) s1 have "one_group_per_id st1" by (rule add_argument_one_group_per_id)
  with r show ?case by (rule Cons.IH)
qed

lemma add_arguments_registered:
  "add_arguments w cfg st secs = Inr st' \<Longrightarrow> sec \<in> set secs \<Longrightarrow> declared_mutex cfg sec = Some m
   \<Longrightarrow> \<exists>g. mutex_group_dict st' m = Some g"
proof (induction secs arbitrary: st)
  case Nil
  then show ?case by simp
next
  case (Cons a rest)
  from Cons.prems(1) obtain st1 where s1: "add_argument w cfg st a = Inr st1"
    and r: "add_arguments w cfg st1 rest = Inr st'"
    by (auto split: sum.splits)
  show ?case
  proof (cases "sec \<in> set rest")
    case True
    with r show ?thesis using Cons.prems(3) by (rule Cons.IH)
  next
    case False
    with Cons.prems(2) have "sec = a" by simp
    with s1 Cons.prems(3) obtain g where "mutex_group_dict st1 m = Some g"
      using add_argument_action(2) by blast
    with r have "mutex_group_dict st' m = Some g" by (rule add_arguments_dict)
    then show ?thesis by blast
  qed
qed

lemma add_arguments_actions:
  "add_arguments w cfg st secs = Inr st'
   \<Longrightarrow> actions (parser st') = actions (parser st) @ map (section_action cfg st') secs"
proof (induction secs arbitrary: st)
  case Nil
  then show ?case by simp
next
  case (Cons sec rest)
  from Cons.prems obtain st1 where s1: "add_argument w cfg st sec = Inr st1"
    and r: "add_arguments w cfg st1 rest = Inr st'"
    by (auto split: sum.splits)
  have a1: "actions (parser st1) = actions (parser st) @ [section_action cfg st1 sec]"
    using s1 by (rule add_argument_action(1))
  have "section_action cfg st' sec = section_action cfg st1 sec"
    using add_argument_action(2) [OF s1] add_arguments_dict [OF r]
    by (rule section_action_later)
  moreover have "actions (parser st') = actions (parser st1) @ map (section_action cfg st') rest"
    using r by (rule Cons.IH)
  ultimately show ?case using a1 by simp
qed

lemma add_arguments_notices:
  "add_arguments w cfg st secs = Inr st'
   \<Longrightarrow> notices st' = notices st @ concat (map (\<lambda>sec. snd (argument_call cfg sec)) secs)"
proof (induction secs arbitrary: st)
  case Nil
  then show ?case by simp
next
  case (Cons sec rest)
  from Cons.prems obtain st1 where s1: "add_argument w cfg st sec = Inr st1"
    and r: "add_arguments w cfg st1 rest = Inr st'"
    by (auto split: sum.splits)
  have "notices st1 = notices st @ snd (argument_call cfg sec)"
    using s1 by (rule add_argument_notices)
  moreover have "notices st' = notices st1 @ concat (map (\<lambda>sec. snd (argument_call cfg sec)) rest)"
    using r by (rule Cons.IH)
  ultimately show ?case by simp
qed

lemma initial_one_group_per_id:
  "one_group_per_id \<lparr>parser = \<lparr>description = desc, group_count = 0, actions = []\<rparr>,
                     mutex_group_dict = Map.empty, notices = []\<rparr>"
  by (simp add: one_group_per_id_def)

lemma build_parser_result:
  assumes "build_parser w cfg = Inr st"
  shows "\<exists>desc st1.
           add_arguments w cfg
             \<lparr>parser = \<lparr>description = desc, group_count = 0, actions = []\<rparr>,
              mutex_group_dict = Map.empty, notices = []\<rparr> (sections cfg) = Inr st1
           \<and> mutex_group_dict st = mutex_group_dict st1
           \<and> group_count (parser st) = group_count (parser st1)
           \<and> notices st = notices st1
           \<and> actions (parser st) = actions (parser st1) @ help_actions cfg"
proof -
  obtain c where c: "map_of (defaults cfg) ''command'' = Some c"
    using assms by (auto simp: build_parser_def split: option.splits)
  let ?st0 = "\<lparr>parser = \<lparr>description = get_or c (map_of (defaults cfg) ''about''),
                         group_count = 0, actions = []\<rparr>,
              mutex_group_dict = Map.empty, notices = []\<rparr>"
  obtain st1 where run: "add_arguments w cfg ?st0 (sections cfg) = Inr st1"
    using assms c by (auto simp: build_parser_def split: sum.splits)
  have "mutex_group_dict st = mutex_group_dict st1
        \<and> group_count (parser st) = group_count (parser st1)
        \<and> notices st = notices st1
        \<and> actions (parser st) = actions (parser st1) @ help_actions cfg"
    using assms c run
    by (auto simp: build_parser_def help_actions_def split: option.splits if_splits)
  with run show ?thesis by blast
qed

text \<open>What the built parser holds: one entry for each section, in order, and the help switch.\<close>

lemma build_parser_actions:
  assumes "build_parser w cfg = Inr st"
  shows "actions (parser st) = map (section_action cfg st) (sections cfg) @ help_actions cfg"
    and "notices st = concat (map (\<lambda>sec. snd (argument_call cfg sec)) (sections cfg))"
    and "one_group_per_id st"
    and "sec \<in> set (sections cfg) \<Longrightarrow> declared_mutex cfg sec = Some m
         \<Longrightarrow> \<exists>g. mutex_group_dict st m = Some g"
proof -
  obtain desc st1 where run: "add_arguments w cfg
             \<lparr>parser = \<lparr>description = desc, group_count = 0, actions = []\<rparr>,
              mutex_group_dict = Map.empty, notices = []\<rparr> (sections cfg) = Inr st1"
    and same: "mutex_group_dict st = mutex_group_dict st1"
      "group_count (parser st) = group_count (parser st1)" "notices st = notices st1"
    and acts: "actions (parser st) = actions (parser st1) @ help_actions cfg"
    using build_parser_result [OF assms] by blast
  have eq: "section_action cfg st = section_action cfg st1"
    by (rule ext) (simp add: section_action_def target_item_def same split: option.splits)
  show "actions (parser st) = map (section_action cfg st) (sections cfg) @ help_actions cfg"
    using add_arguments_actions [OF run] acts eq by simp
  show "notices st = concat (map (\<lambda>sec. snd (argument_call cfg sec)) (sections cfg))"
    using add_arguments_notices [OF run] same by simp
  have "one_group_per_id st1"
    using run initial_one_group_per_id by (rule add_arguments_one_group_per_id)
  then show "one_group_per_id st" using same by (simp add: one_group_per_id_def)
  show "\<exists>g. mutex_group_dict st m = Some g"
    if "sec \<in> set (sections cfg)" "declared_mutex cfg sec = Some m"
    using add_arguments_registered [OF run that] same by simp
qed

lemma add_arguments_accepted:
  "(\<And>it p c. refuses w it p c = None) \<Longrightarrow> \<exists>st'. add_arguments w cfg st secs = Inr st'"
proof (induction secs arbitrary: st)
  case Nil
  show ?case by simp
next
  case (Cons sec rest)
  have "\<exists>st1. add_argument w cfg st sec = Inr st1"
    by (simp add: add_argument_def Let_def case_prod_beta Cons.prems)
  then obtain st1 where "add_argument w cfg st sec = Inr st1" by blast
  moreover obtain st' where "add_arguments w cfg st1 rest = Inr st'"
    using Cons.IH [OF Cons.prems] by blast
  ultimately show ?case by simp
qed

lemma build_parser_total:
  assumes "\<And>it p c. refuses w it p c = None" and "map_of (defaults cfg) ''command'' = Some c"
  shows "\<exists>st. build_parser w cfg = Inr st"
proof -
  obtain st1 where "add_arguments w cfg
             \<lparr>parser = \<lparr>description = get_or c (map_of (defaults cfg) ''about''),
                        group_count = 0, actions = []\<rparr>,
              mutex_group_dict = Map.empty, notices = []\<rparr> (sections cfg) = Inr st1"
    using add_arguments_accepted [OF assms(1)] by blast
  then show ?thesis
    using assms by (simp add: build_parser_def split: option.splits)
qed

text \<open>
  When the library refuses a declaration the build ends with its exception: a positional
  argument with a mutex id gives no parser at all.
\<close>

lemma refused_declaration_ends_build:
  "build_parser strict_world positional_mutex_tool = Inl (ValueError, [])"
  by (simp add: build_parser_def add_argument_def select_parser_group_def argument_call_def
      type_params_def positional_mutex_tool_def json_tool_def strict_world_def json_world_def
      argparse_refuses_def is_option_string_def section_get_def get_or_def)

text \<open>
  C3. When the parser is built, it holds exactly one entry for each section, in
  declaration order (and the help switch): a section that declares a mutex-group id is
  in the group registered under that id, so all sections with the same id are in one
  group, and a section that declares none is on the parser itself.
  \<^verbatim>\<open>select_parser_group\<close> makes a group (and registers it) when the id is not
  registered yet, and returns the registered group otherwise. So every id has one group
  and every group one id.
\<close>

theorem mutex_groups_by_id:
  assumes "build_parser w cfg = Inr st"
  shows "actions (parser st) = map (section_action cfg st) (sections cfg) @ help_actions cfg
    \<and> (\<forall>sec \<in> set (sections cfg). \<forall>m. declared_mutex cfg sec = Some m \<longrightarrow>
          (\<exists>g. mutex_group_dict st m = Some g \<and> g < group_count (parser st)
                \<and> target_item cfg st sec = Group g))
    \<and> (\<forall>sec \<in> set (sections cfg). declared_mutex cfg sec = None \<longrightarrow>
          target_item cfg st sec = Parser)
    \<and> one_group_per_id st
    \<and> (\<forall>sec m groups p. declared_mutex cfg sec = Some m \<and> groups m = None \<longrightarrow>
          select_parser_group cfg sec groups p
            = (Group (group_count p), groups(m \<mapsto> group_count p),
               p\<lparr>group_count := Suc (group_count p)\<rparr>))
    \<and> (\<forall>sec m g groups p. declared_mutex cfg sec = Some m \<and> groups m = Some g \<longrightarrow>
          select_parser_group cfg sec groups p = (Group g, groups, p))
    \<and> (\<forall>sec groups p. section_get cfg (snd sec) ''mutex'' = None \<longrightarrow>
          select_parser_group cfg sec groups p = (Parser, groups, p))"
proof -
  note built = build_parser_actions [OF assms]
  have wf: "one_group_per_id st" by (rule built(3))
  have in_group: "\<exists>g. mutex_group_dict st m = Some g \<and> g < group_count (parser st)
                \<and> target_item cfg st sec = Group g"
    if sec: "sec \<in> set (sections cfg)" and dm: "declared_mutex cfg sec = Some m" for sec m
  proof -
    obtain g where g: "mutex_group_dict st m = Some g" using built(4) [OF sec dm] by blast
    then have "g < group_count (parser st)" using wf by (simp add: one_group_per_id_def)
    with g dm show ?thesis by (simp add: target_item_def)
  qed
  have on_parser: "target_item cfg st sec = Parser" if "declared_mutex cfg sec = None" for sec
    using that by (simp add: target_item_def)
  have new: "\<forall>sec m groups p. declared_mutex cfg sec = Some m \<and> groups m = None \<longrightarrow>
          select_parser_group cfg sec groups p
            = (Group (group_count p), groups(m \<mapsto> group_count p),
               p\<lparr>group_count := Suc (group_count p)\<rparr>)"
    by (simp add: select_new)
  have old: "\<forall>sec m g groups p. declared_mutex cfg sec = Some m \<and> groups m = Some g \<longrightarrow>
          select_parser_group cfg sec groups p = (Group g, groups, p)"
    by (simp add: select_old)
  have global: "\<forall>sec groups p. section_get cfg (snd sec) ''mutex'' = None \<longrightarrow>
          select_parser_group cfg sec groups p = (Parser, groups, p)"
    by (simp add: select_parser_group_def)
  from built(1) in_group on_parser wf new old global show ?thesis by blast
qed

theorem mutex_groups_by_id_witness:
  "\<exists>st. build_parser json_world mutex_tool = Inr st
     \<and> mutex_group_dict st ''IndentSpaceOrTab'' = Some 0
     \<and> group_count (parser st) = 1
     \<and> map fst (actions (parser st)) = [Group 0, Parser, Group 0, Parser]
     \<and> actions (parser st)
         = map (section_action mutex_tool st) (sections mutex_tool) @ help_actions mutex_tool
     \<and> one_group_per_id st"
proof -
  have acc: "\<And>it p c. refuses json_world it p c = None" by (simp add: json_world_def)
  have cmd: "map_of (defaults mutex_tool) ''command'' = Some ''python -m json.tool''"
    by (simp add: mutex_tool_def json_tool_def)
  obtain st where st: "build_parser json_world mutex_tool = Inr st"
    using build_parser_total [OF acc cmd] by blast
  have ev: "mutex_group_dict st ''IndentSpaceOrTab'' = Some 0 \<and> group_count (parser st) = 1
        \<and> map fst (actions (parser st)) = [Group 0, Parser, Group 0, Parser]"
    using st
    by (auto simp: build_parser_def add_argument_def select_parser_group_def case_prod_beta
        Let_def mutex_tool_def json_tool_def json_world_def tab_section_def sort_keys_section_def
        no_indent_section_def section_get_def)
  have "actions (parser st)
         = map (section_action mutex_tool st) (sections mutex_tool) @ help_actions mutex_tool
        \<and> one_group_per_id st"
    using mutex_groups_by_id [OF st] by simp
  with st ev show ?thesis by (intro exI [of _ st]) simp
qed

subsection \<open>The type switch\<close>

lemma type_params_boolean:
  "type_params cfg sec ''boolean'' d = (d\<lparr>arg_action := Some ''store_true''\<rparr>, [])"
  by (simp add: type_params_def)

lemma type_params_string:
  "type_params cfg sec ''string'' d = (d\<lparr>arg_action := Some ''store''\<rparr>, [])"
  by (simp add: type_params_def)

lemma type_params_integer:
  "type_params cfg sec ''integer'' d = (d\<lparr>arg_widget := Some ''IntegerField''\<rparr>, [])"
  by (simp add: type_params_def)

lemma type_params_file:
  "type_params cfg sec ''file'' d
     = (d\<lparr>arg_widget := Some ''MultiFileChooser'', arg_nargs := Some ''+''\<rparr>, [])"
  by (simp add: type_params_def)

lemma type_params_save:
  "type_params cfg sec ''save'' d = (d\<lparr>arg_widget := Some ''FileSaver''\<rparr>, [])"
  by (simp add: type_params_def)

lemma type_params_dir:
  "type_params cfg sec ''dir'' d = (d\<lparr>arg_widget := Some ''DirChooser''\<rparr>, [])"
  by (simp add: type_params_def)

lemma type_params_choice:
  "type_params cfg sec ''choice'' d
     = (d\<lparr>arg_action := Some ''store'',
          arg_choices :=
            (if parse_choices (get_or ''Yes, No'' (section_get cfg (snd sec) ''choices'')) \<noteq> []
             then Some (parse_choices (get_or ''Yes, No'' (section_get cfg (snd sec) ''choices'')))
             else None)\<rparr>, [])"
  by (simp add: type_params_def Let_def)

lemma type_params_invalid:
  "t \<notin> set supported_types \<Longrightarrow>
   type_params cfg sec t d
     = (d\<lparr>arg_action := Some ''store_true''\<rparr>,
        [''Section \"'' @ fst sec @ ''\": Invalid type \"'' @ t @ ''\"; defaulting to boolean''])"
  by (simp add: type_params_def supported_types_def)

lemma argument_call_params:
  assumes "argument_call cfg sec = ((primary, d), msgs)"
  shows "\<exists>d0 d1. type_params cfg sec (get_or ''boolean'' (section_get cfg (snd sec) ''type'')) d0
                   = (d1, msgs)
           \<and> arg_nargs d0 = None \<and> arg_widget d0 = None \<and> arg_action d0 = None
           \<and> arg_choices d0 = None
           \<and> arg_nargs d = arg_nargs d1 \<and> arg_widget d = arg_widget d1
           \<and> arg_action d = arg_action d1 \<and> arg_choices d = arg_choices d1"
proof -
  let ?t = "get_or ''boolean'' (section_get cfg (snd sec) ''type'')"
  let ?flag = "get_or ''_positional'' (section_get cfg (snd sec) ''flag'')"
  let ?dflt = "section_get cfg (snd sec) ''default''"
  let ?d0 = "\<lparr>arg_help = get_or
            (fst sec @ '' '' @ ?flag @ '' ('' @ ?t @ '') defaults to \"''
               @ (case ?dflt of None \<Rightarrow> ''None'' | Some s \<Rightarrow> s) @ ''\"'')
            (section_get cfg (snd sec) ''help''),
          arg_default = Some (case ?dflt of None \<Rightarrow> PNone | Some s \<Rightarrow> PStr s),
          arg_nargs = None, arg_widget = None, arg_action = None, arg_choices = None,
          arg_dest = None, arg_required = None\<rparr>"
  obtain d1 m1 where tp: "type_params cfg sec ?t ?d0 = (d1, m1)" by (cases "type_params cfg sec ?t ?d0")
  have call: "argument_call cfg sec =
          (if ''_positional'' = ?flag then ((fst sec, d1), m1)
           else ((?flag, d1\<lparr>arg_dest := Some (fst sec), arg_required := Some False\<rparr>), m1))"
    unfolding argument_call_def Let_def tp by simp
  show ?thesis
  proof (cases "''_positional'' = ?flag")
    case True
    with call assms have "d = d1" "msgs = m1" by simp_all
    with tp show ?thesis by (intro exI [of _ ?d0] exI [of _ d1]) simp
  next
    case False
    with call assms have "d = d1\<lparr>arg_dest := Some (fst sec), arg_required := Some False\<rparr>" "msgs = m1"
      by simp_all
    with tp show ?thesis by (intro exI [of _ ?d0] exI [of _ d1]) simp
  qed
qed

text \<open>
  C2 (as stated). A choice section is compiled to a \<^verbatim>\<open>store\<close> action with the
  declared choices list. It fails when the declared list is empty (\<^verbatim>\<open>choices=\<close>):
  the script passes no \<^verbatim>\<open>choices\<close> at all (line 232), so the parser allows any
  value instead of none.
\<close>

theorem empty_choices_not_passed:
  "passed_choices (build_parser json_world (json_tool\<lparr>sections := [empty_choice_section]\<rparr>))
     = [None, None]
   \<and> passed_choices (build_parser json_world (json_tool\<lparr>sections := [empty_choice_section]\<rparr>))
     \<noteq> [Some (parse_choices ''''), None]"
  by (simp add: passed_choices_def build_parser_def add_argument_def select_parser_group_def
      argument_call_def type_params_def parse_choices_def help_call_def
      empty_choice_section_def json_tool_def json_world_def section_get_def get_or_def)

text \<open>
  C2 (amended). The compiler knows exactly seven types. For every section the declared
  type gives the parameters of the argument that is added to the parser: boolean a
  \<^verbatim>\<open>store_true\<close> action, string a \<^verbatim>\<open>store\<close> action, integer the IntegerField
  widget, file the MultiFileChooser widget with \<^verbatim>\<open>nargs='+'\<close> (one or more files),
  save the FileSaver widget, dir the DirChooser widget, choice a \<^verbatim>\<open>store\<close> action
  with the declared choices as a list when that list is not empty, and with no choices
  when it is empty. A section without type is boolean. A type outside the seven is not
  taken: a notice calls it invalid and the parameters are those of boolean.
\<close>

theorem add_argument_type_switch:
  assumes "build_parser w cfg = Inr st"
    and "sec \<in> set (sections cfg)"
    and "arg_type = get_or ''boolean'' (section_get cfg (snd sec) ''type'')"
    and "choices = parse_choices (get_or ''Yes, No'' (section_get cfg (snd sec) ''choices''))"
  shows "\<exists>primary d msgs.
      argument_call cfg sec = ((primary, d), msgs)
    \<and> (target_item cfg st sec, primary, d) \<in> set (actions (parser st))
    \<and> set msgs \<subseteq> set (notices st)
    \<and> (section_get cfg (snd sec) ''type'' = None \<longrightarrow> arg_type = ''boolean'')
    \<and> (arg_type = ''boolean'' \<longrightarrow>
          arg_action d = Some ''store_true'' \<and> arg_widget d = None \<and> arg_nargs d = None
          \<and> arg_choices d = None \<and> msgs = [])
    \<and> (arg_type = ''string'' \<longrightarrow>
          arg_action d = Some ''store'' \<and> arg_widget d = None \<and> arg_nargs d = None
          \<and> arg_choices d = None \<and> msgs = [])
    \<and> (arg_type = ''integer'' \<longrightarrow>
          arg_widget d = Some ''IntegerField'' \<and> arg_action d = None \<and> arg_nargs d = None
          \<and> arg_choices d = None \<and> msgs = [])
    \<and> (arg_type = ''file'' \<longrightarrow>
          arg_widget d = Some ''MultiFileChooser'' \<and> arg_nargs d = Some ''+''
          \<and> arg_action d = None \<and> arg_choices d = None \<and> msgs = [])
    \<and> (arg_type = ''save'' \<longrightarrow>
          arg_widget d = Some ''FileSaver'' \<and> arg_action d = None \<and> arg_nargs d = None
          \<and> arg_choices d = None \<and> msgs = [])
    \<and> (arg_type = ''dir'' \<longrightarrow>
          arg_widget d = Some ''DirChooser'' \<and> arg_action d = None \<and> arg_nargs d = None
          \<and> arg_choices d = None \<and> msgs = [])
    \<and> (arg_type = ''choice'' \<longrightarrow>
          arg_action d = Some ''store'' \<and> arg_widget d = None \<and> arg_nargs d = None
          \<and> arg_choices d = (if choices \<noteq> [] then Some choices else None) \<and> msgs = [])
    \<and> (arg_type \<notin> set supported_types \<longrightarrow>
          msgs = [''Section \"'' @ fst sec @ ''\": Invalid type \"'' @ arg_type
                    @ ''\"; defaulting to boolean'']
          \<and> arg_action d = Some ''store_true'' \<and> arg_widget d = None \<and> arg_nargs d = None
          \<and> arg_choices d = None)"
proof -
  obtain primary d msgs where call: "argument_call cfg sec = ((primary, d), msgs)"
    by (metis surj_pair)
  have "section_action cfg st sec \<in> set (actions (parser st))"
    using build_parser_actions(1) [OF assms(1)] assms(2) by simp
  then have added: "(target_item cfg st sec, primary, d) \<in> set (actions (parser st))"
    using call by (simp add: section_action_def)
  have "set (snd (argument_call cfg sec)) \<subseteq> set (notices st)"
    using build_parser_actions(2) [OF assms(1)] assms(2) by auto
  then have shown: "set msgs \<subseteq> set (notices st)" using call by simp
  obtain d0 d1 where tp: "type_params cfg sec arg_type d0 = (d1, msgs)"
    and d0: "arg_nargs d0 = None" "arg_widget d0 = None" "arg_action d0 = None"
      "arg_choices d0 = None"
    and d: "arg_nargs d = arg_nargs d1" "arg_widget d = arg_widget d1"
      "arg_action d = arg_action d1" "arg_choices d = arg_choices d1"
    using argument_call_params [OF call] assms(3) by blast
  have t_none: "section_get cfg (snd sec) ''type'' = None \<longrightarrow> arg_type = ''boolean''"
    using assms(3) by (simp add: get_or_def)
  have t_boolean: "arg_action d = Some ''store_true'' \<and> arg_widget d = None \<and> arg_nargs d = None
          \<and> arg_choices d = None \<and> msgs = []" if "arg_type = ''boolean''"
    using tp d0 d unfolding that type_params_boolean by auto
  have t_string: "arg_action d = Some ''store'' \<and> arg_widget d = None \<and> arg_nargs d = None
          \<and> arg_choices d = None \<and> msgs = []" if "arg_type = ''string''"
    using tp d0 d unfolding that type_params_string by auto
  have t_integer: "arg_widget d = Some ''IntegerField'' \<and> arg_action d = None \<and> arg_nargs d = None
          \<and> arg_choices d = None \<and> msgs = []" if "arg_type = ''integer''"
    using tp d0 d unfolding that type_params_integer by auto
  have t_file: "arg_widget d = Some ''MultiFileChooser'' \<and> arg_nargs d = Some ''+''
          \<and> arg_action d = None \<and> arg_choices d = None \<and> msgs = []" if "arg_type = ''file''"
    using tp d0 d unfolding that type_params_file by auto
  have t_save: "arg_widget d = Some ''FileSaver'' \<and> arg_action d = None \<and> arg_nargs d = None
          \<and> arg_choices d = None \<and> msgs = []" if "arg_type = ''save''"
    using tp d0 d unfolding that type_params_save by auto
  have t_dir: "arg_widget d = Some ''DirChooser'' \<and> arg_action d = None \<and> arg_nargs d = None
          \<and> arg_choices d = None \<and> msgs = []" if "arg_type = ''dir''"
    using tp d0 d unfolding that type_params_dir by auto
  have t_choice: "arg_action d = Some ''store'' \<and> arg_widget d = None \<and> arg_nargs d = None
          \<and> arg_choices d = (if choices \<noteq> [] then Some choices else None) \<and> msgs = []"
    if "arg_type = ''choice''"
    using tp d0 d assms(4) unfolding that type_params_choice by auto
  have t_invalid: "msgs = [''Section \"'' @ fst sec @ ''\": Invalid type \"'' @ arg_type
                    @ ''\"; defaulting to boolean'']
          \<and> arg_action d = Some ''store_true'' \<and> arg_widget d = None \<and> arg_nargs d = None
          \<and> arg_choices d = None" if "arg_type \<notin> set supported_types"
    using tp d0 d unfolding type_params_invalid [OF that] by auto
  from t_none t_boolean t_string t_integer t_file t_save t_dir t_choice t_invalid
  have "(section_get cfg (snd sec) ''type'' = None \<longrightarrow> arg_type = ''boolean'')
    \<and> (arg_type = ''boolean'' \<longrightarrow>
          arg_action d = Some ''store_true'' \<and> arg_widget d = None \<and> arg_nargs d = None
          \<and> arg_choices d = None \<and> msgs = [])
    \<and> (arg_type = ''string'' \<longrightarrow>
          arg_action d = Some ''store'' \<and> arg_widget d = None \<and> arg_nargs d = None
          \<and> arg_choices d = None \<and> msgs = [])
    \<and> (arg_type = ''integer'' \<longrightarrow>
          arg_widget d = Some ''IntegerField'' \<and> arg_action d = None \<and> arg_nargs d = None
          \<and> arg_choices d = None \<and> msgs = [])
    \<and> (arg_type = ''file'' \<longrightarrow>
          arg_widget d = Some ''MultiFileChooser'' \<and> arg_nargs d = Some ''+''
          \<and> arg_action d = None \<and> arg_choices d = None \<and> msgs = [])
    \<and> (arg_type = ''save'' \<longrightarrow>
          arg_widget d = Some ''FileSaver'' \<and> arg_action d = None \<and> arg_nargs d = None
          \<and> arg_choices d = None \<and> msgs = [])
    \<and> (arg_type = ''dir'' \<longrightarrow>
          arg_widget d = Some ''DirChooser'' \<and> arg_action d = None \<and> arg_nargs d = None
          \<and> arg_choices d = None \<and> msgs = [])
    \<and> (arg_type = ''choice'' \<longrightarrow>
          arg_action d = Some ''store'' \<and> arg_widget d = None \<and> arg_nargs d = None
          \<and> arg_choices d = (if choices \<noteq> [] then Some choices else None) \<and> msgs = [])
    \<and> (arg_type \<notin> set supported_types \<longrightarrow>
          msgs = [''Section \"'' @ fst sec @ ''\": Invalid type \"'' @ arg_type
                    @ ''\"; defaulting to boolean'']
          \<and> arg_action d = Some ''store_true'' \<and> arg_widget d = None \<and> arg_nargs d = None
          \<and> arg_choices d = None)"
    by blast
  then show ?thesis
    by (rule_tac x = primary in exI, rule_tac x = d in exI, rule_tac x = msgs in exI)
       (rule conjI [OF call], rule conjI [OF added], rule conjI [OF shown])
qed

theorem add_argument_type_switch_witness:
  "(\<exists>st d. build_parser json_world json_tool = Inr st
       \<and> (Parser, ''--test'', d) \<in> set (actions (parser st))
       \<and> arg_action d = Some ''store''
       \<and> arg_choices d = Some [''One'', ''Two'', ''Three''])
   \<and> (\<exists>st d. build_parser json_world (json_tool\<lparr>sections := [float_section]\<rparr>) = Inr st
       \<and> (Parser, ''--prec'', d) \<in> set (actions (parser st))
       \<and> arg_action d = Some ''store_true''
       \<and> set [''Section \"Precision\": Invalid type \"float\"; defaulting to boolean'']
            \<subseteq> set (notices st))"
proof -
  let ?float_tool = "json_tool\<lparr>sections := [float_section]\<rparr>"
  have acc: "\<And>it p c. refuses json_world it p c = None" by (simp add: json_world_def)
  have cmd: "map_of (defaults json_tool) ''command'' = Some ''python -m json.tool''"
    by (simp add: json_tool_def)
  have cmd': "map_of (defaults ?float_tool) ''command'' = Some ''python -m json.tool''"
    by (simp add: json_tool_def)
  obtain st where st: "build_parser json_world json_tool = Inr st"
    using build_parser_total [OF acc cmd] by blast
  obtain st' where st': "build_parser json_world ?float_tool = Inr st'"
    using build_parser_total [OF acc cmd'] by blast
  have s: "test_choice_section \<in> set (sections json_tool)"
    by (simp add: json_tool_def test_choice_section_def)
  have s': "float_section \<in> set (sections ?float_tool)" by simp
  have t: "''choice'' = get_or ''boolean'' (section_get json_tool (snd test_choice_section) ''type'')"
    by (simp add: section_get_def get_or_def test_choice_section_def)
  have l: "[''One'', ''Two'', ''Three'']
             = parse_choices (get_or ''Yes, No''
                 (section_get json_tool (snd test_choice_section) ''choices''))"
    by (simp add: section_get_def get_or_def parse_choices_def strip_def isspace_def
        test_choice_section_def)
  have t': "''float'' = get_or ''boolean'' (section_get ?float_tool (snd float_section) ''type'')"
    by (simp add: section_get_def get_or_def float_section_def)
  have nf: "''float'' \<notin> set supported_types" by (simp add: supported_types_def)
  have p: "fst (fst (argument_call json_tool test_choice_section)) = ''--test''"
    by (simp add: argument_call_def json_tool_def section_get_def get_or_def
        test_choice_section_def case_prod_beta Let_def)
  have p': "fst (fst (argument_call ?float_tool float_section)) = ''--prec''"
    by (simp add: argument_call_def json_tool_def section_get_def get_or_def
        float_section_def case_prod_beta Let_def)
  have i: "target_item json_tool st test_choice_section = Parser"
    by (simp add: target_item_def declared_mutex_def section_get_def json_tool_def
        test_choice_section_def)
  have i': "target_item ?float_tool st' float_section = Parser"
    by (simp add: target_item_def declared_mutex_def section_get_def json_tool_def
        float_section_def)
  have a: "\<exists>d. (Parser, ''--test'', d) \<in> set (actions (parser st))
       \<and> arg_action d = Some ''store'' \<and> arg_choices d = Some [''One'', ''Two'', ''Three'']"
    using add_argument_type_switch [OF st s t l] p i by auto
  have b: "\<exists>d. (Parser, ''--prec'', d) \<in> set (actions (parser st'))
       \<and> arg_action d = Some ''store_true''
       \<and> set [''Section \"Precision\": Invalid type \"float\"; defaulting to boolean'']
            \<subseteq> set (notices st')"
    using add_argument_type_switch [OF st' s' t' refl] p' i' nf
    by (auto simp: float_section_def)
  from st a st' b show ?thesis by blast
qed

subsection \<open>Loading the ini file\<close>

lemma replace_from_absent:
  "c \<in> set old \<Longrightarrow> c \<notin> set s \<Longrightarrow> replace_from old new 0 s = s"
proof (induction s)
  case Nil
  show ?case by simp
next
  case (Cons x xs)
  have "\<not> prefix old (x # xs)"
  proof
    assume "prefix old (x # xs)"
    then have "set old \<subseteq> set (x # xs)" by (rule set_mono_prefix)
    with Cons.prems show False by blast
  qed
  moreover have "replace_from old new 0 xs = xs" using Cons by simp
  ultimately show ?case by simp
qed

lemma default_ini_no_Y: "CHR ''Y'' \<notin> set DEFAULT_INI_FILE"
  by (simp add: DEFAULT_INI_FILE_def)

lemma default_ini_no_placeholder:
  "replace DEFAULT_INI_FILE ''__PYTHON__'' new = DEFAULT_INI_FILE"
  unfolding replace_def
  by (rule replace_from_absent [of "CHR ''Y''"]) (simp_all add: default_ini_no_Y)

lemma ini_is_not_icon: "ini_file_name w \<noteq> dir @ ''/config_icon.png''"
proof
  assume "ini_file_name w = dir @ ''/config_icon.png''"
  then have "last (ini_file_name w) = last (dir @ ''/config_icon.png'')" by simp
  then show False by (simp add: ini_file_name_def)
qed

lemma set_default_icon_ini:
  "fst (set_default_icon w fs) (ini_file_name w) = fs (ini_file_name w)"
  using ini_is_not_icon [of w "script_parent w"]
  by (simp add: set_default_icon_def Let_def)

lemma load_ini_absent:
  assumes "files w (ini_file_name w) = None"
  shows "fst (load_ini w) (ini_file_name w) = Some DEFAULT_INI_FILE"
    and "snd (snd (load_ini w)) = Some DEFAULT_INI_FILE"
  using assms set_default_icon_ini [of w "(files w)(ini_file_name w \<mapsto> DEFAULT_INI_FILE)"]
  by (simp_all add: load_ini_def Let_def case_prod_beta default_ini_no_placeholder)

lemma load_ini_present:
  assumes "files w (ini_file_name w) = Some t"
  shows "fst (load_ini w) (ini_file_name w) = Some t"
    and "snd (snd (load_ini w)) = Some t"
  using assms set_default_icon_ini [of w "files w"]
  by (simp_all add: load_ini_def Let_def case_prod_beta)

lemma main_files: "files_after (main w) = fst (load_ini w)"
  by (simp add: main_def split: prod.splits option.splits sum.splits outcome.splits)

text \<open>
  C5. The default configuration file is created exactly when the ini file named after
  the script is absent: then the built-in default text is written to it and that text is
  what is read; when the file exists its contents stay as they are and are what is read.
  Nothing later in \<^verbatim>\<open>main\<close> touches the files.
\<close>

theorem default_ini_created_when_absent:
  "(files w (ini_file_name w) = None \<longrightarrow>
      fst (load_ini w) (ini_file_name w) = Some DEFAULT_INI_FILE
      \<and> snd (snd (load_ini w)) = Some DEFAULT_INI_FILE)
   \<and> (\<forall>t. files w (ini_file_name w) = Some t \<longrightarrow>
      fst (load_ini w) (ini_file_name w) = Some t \<and> snd (snd (load_ini w)) = Some t)
   \<and> files_after (main w) = fst (load_ini w)"
  using load_ini_absent [of w] load_ini_present [of w] main_files [of w] by blast

theorem default_ini_created_when_absent_witness:
  "ini_file_name json_world = ''json_tool.ini''
   \<and> files json_world ''json_tool.ini'' = None
   \<and> files_after (main json_world) ''json_tool.ini'' = Some DEFAULT_INI_FILE
   \<and> files_after (main (json_world\<lparr>files := [''json_tool.ini'' \<mapsto> ''[root]\<newline>command=ls\<newline>'']\<rparr>))
        ''json_tool.ini'' = Some ''[root]\<newline>command=ls\<newline>''"
proof -
  let ?w = "json_world\<lparr>files := [''json_tool.ini'' \<mapsto> ''[root]\<newline>command=ls\<newline>'']\<rparr>"
  have n: "ini_file_name json_world = ''json_tool.ini''"
    by (simp add: ini_file_name_def rpartition_head_def json_world_def)
  have n': "ini_file_name ?w = ''json_tool.ini''"
    by (simp add: ini_file_name_def rpartition_head_def json_world_def)
  have a: "files json_world ''json_tool.ini'' = None"
    by (simp add: json_world_def)
  have p: "files ?w ''json_tool.ini'' = Some ''[root]\<newline>command=ls\<newline>''"
    by simp
  show ?thesis
    using default_ini_created_when_absent [of json_world] default_ini_created_when_absent [of ?w]
      n n' a p
    by simp
qed

subsection \<open>Parsed arguments\<close>
















subsection \<open>Running the command\<close>

lemma run_command_exits:
  "popen w cmd = Some (Exits lines retval) \<Longrightarrow>
   run_command w cmd
     = (Running cmd # map (\<lambda>line. Line (rstrip (decode w line))) lines @ [Done retval],
        Returns retval)"
  by (simp add: run_command_def)

lemma main_runs:
  assumes "load_ini w = (fs, msgs, Some t)" and "read_file w t = Some cfg"
    and "build_parser w cfg = Inr st" and "parse_args w (parser st) = Some args"
    and "construct_cmd cfg args = Inr cmd" and "popen w cmd = Some (Exits lines retval)"
  shows "ending (main w) = Exit retval"
    and "printed (main w)
           = Running cmd # map (\<lambda>line. Line (rstrip (decode w line))) lines @ [Done retval]"
  using assms run_command_exits [OF assms(6)]
  by (simp_all add: main_def construct_and_run_def)

lemma first_run_loads_default:
  assumes "files w (ini_file_name w) = None"
  shows "\<exists>fs msgs. load_ini w = (fs, msgs, Some DEFAULT_INI_FILE)"
proof -
  have "snd (snd (load_ini w)) = Some DEFAULT_INI_FILE"
    using assms by (rule load_ini_absent(2))
  then show ?thesis by (cases "load_ini w") auto
qed

text \<open>
  C4 (as stated). The application terminates with exactly the wait status as its own
  exit code. It fails for a command that a signal ends: the wait status is negative
  (-15 for signal 15), \<^verbatim>\<open>sys.exit(-15)\<close> is what \<^verbatim>\<open>main\<close> does, and the exit
  code of the application is 241.
\<close>

theorem exit_code_not_wait_status:
  "ending (main killed_world) = Exit (- 15)
   \<and> exit_code (ending (main killed_world)) = Some 241"
proof -
  have "files killed_world (ini_file_name killed_world) = None"
    by (simp add: killed_world_def json_world_def)
  then obtain fs msgs where l: "load_ini killed_world = (fs, msgs, Some DEFAULT_INI_FILE)"
    using first_run_loads_default by blast
  have r: "read_file killed_world DEFAULT_INI_FILE = Some json_tool"
    by (simp add: killed_world_def json_world_def)
  have acc: "\<And>it p c. refuses killed_world it p c = None"
    by (simp add: killed_world_def json_world_def)
  have cmd: "map_of (defaults json_tool) ''command'' = Some ''python -m json.tool''"
    by (simp add: json_tool_def)
  obtain st where b: "build_parser killed_world json_tool = Inr st"
    using build_parser_total [OF acc cmd] by blast
  have a: "parse_args killed_world (parser st) = Some args_sorted"
    by (simp add: killed_world_def json_world_def)
  have c: "construct_cmd json_tool args_sorted
             = Inr ''python -m json.tool --sort-keys a.json b c.json --''"
    by (simp add: json_tool_eval args_sorted_def)
  have p: "popen killed_world ''python -m json.tool --sort-keys a.json b c.json --''
             = Some (Exits [] (- 15))"
    by (simp add: killed_world_def)
  have "ending (main killed_world) = Exit (- 15)"
    using l r b a c p by (rule main_runs(1))
  then show ?thesis by (simp add: exit_code_def)
qed

text \<open>
  C4 (amended). When the process a command starts ends, \<^verbatim>\<open>run_command\<close> prints
  every line the process wrote, then the status line, and returns the wait status; and
  when \<^verbatim>\<open>main\<close> gets as far as running the assembled command, it calls
  \<^verbatim>\<open>sys.exit\<close> with exactly that status. The exit code of the application is then
  the status modulo 256: the status itself when the command exited (0 to 255), and 256
  less the signal number when a signal ended it.
\<close>

theorem exit_status_reported:
  assumes "popen w cmd = Some (Exits lines retval)"
  shows "run_command w cmd
           = (Running cmd # map (\<lambda>line. Line (rstrip (decode w line))) lines @ [Done retval],
              Returns retval)
    \<and> (\<forall>fs msgs t cfg st args.
          load_ini w = (fs, msgs, Some t) \<and> read_file w t = Some cfg
          \<and> build_parser w cfg = Inr st \<and> parse_args w (parser st) = Some args
          \<and> construct_cmd cfg args = Inr cmd
          \<longrightarrow> ending (main w) = Exit retval
              \<and> printed (main w)
                  = Running cmd # map (\<lambda>line. Line (rstrip (decode w line))) lines @ [Done retval]
              \<and> (- 256 < retval \<and> retval < 256 \<longrightarrow>
                    exit_code (ending (main w)) = Some (retval mod 256))
              \<and> (0 \<le> retval \<and> retval < 256 \<longrightarrow> exit_code (ending (main w)) = Some retval)
              \<and> (- 256 < retval \<and> retval < 0 \<longrightarrow>
                    exit_code (ending (main w)) = Some (256 + retval)))"
proof -
  note run = run_command_exits [OF assms]
  have "ending (main w) = Exit retval
        \<and> printed (main w)
            = Running cmd # map (\<lambda>line. Line (rstrip (decode w line))) lines @ [Done retval]
        \<and> (- 256 < retval \<and> retval < 256 \<longrightarrow>
              exit_code (ending (main w)) = Some (retval mod 256))
        \<and> (0 \<le> retval \<and> retval < 256 \<longrightarrow> exit_code (ending (main w)) = Some retval)
        \<and> (- 256 < retval \<and> retval < 0 \<longrightarrow>
              exit_code (ending (main w)) = Some (256 + retval))"
    if h: "load_ini w = (fs, msgs, Some t)" "read_file w t = Some cfg"
      "build_parser w cfg = Inr st" "parse_args w (parser st) = Some args"
      "construct_cmd cfg args = Inr cmd"
    for fs msgs t cfg st args
  proof -
    have e: "ending (main w) = Exit retval"
      using h assms by (rule main_runs(1))
    have p: "printed (main w)
            = Running cmd # map (\<lambda>line. Line (rstrip (decode w line))) lines @ [Done retval]"
      using h assms by (rule main_runs(2))
    have m: "exit_code (Exit retval) = Some (retval mod 256)"
      if "- 256 < retval" "retval < 256"
    proof -
      have "- (2 ^ 63) \<le> retval \<and> retval < (2 ^ 63 :: int)" using that by simp
      then show ?thesis by (simp add: exit_code_def)
    qed
    have pos: "retval mod 256 = retval" if "0 \<le> retval" "retval < 256"
      using that by simp
    have neg: "retval mod 256 = 256 + retval" if "- 256 < retval" "retval < 0"
    proof -
      have "retval mod 256 = (256 + retval) mod 256" by simp
      also have "\<dots> = 256 + retval" using that by (intro mod_pos_pos_trivial) simp_all
      finally show ?thesis .
    qed
    from e p m pos neg show ?thesis by auto
  qed
  with run show ?thesis by blast
qed

theorem exit_status_reported_witness:
  "popen json_world ''python -m json.tool --sort-keys a.json b c.json --''
     = Some (Exits [''Expecting value: line 1 column 1 (char 0)  ''] 1)
   \<and> ending (main json_world) = Exit 1
   \<and> exit_code (ending (main json_world)) = Some 1
   \<and> printed (main json_world)
       = [Running ''python -m json.tool --sort-keys a.json b c.json --'',
          Line (map of_char ''Expecting value: line 1 column 1 (char 0)''), Done 1]"
proof -
  let ?cmd = "''python -m json.tool --sort-keys a.json b c.json --''"
  have p: "popen json_world ?cmd = Some (Exits [''Expecting value: line 1 column 1 (char 0)  ''] 1)"
    by (simp add: json_world_def)
  have "files json_world (ini_file_name json_world) = None"
    by (simp add: json_world_def)
  then obtain fs msgs where l: "load_ini json_world = (fs, msgs, Some DEFAULT_INI_FILE)"
    using first_run_loads_default by blast
  have r: "read_file json_world DEFAULT_INI_FILE = Some json_tool"
    by (simp add: json_world_def)
  have acc: "\<And>it p c. refuses json_world it p c = None" by (simp add: json_world_def)
  have cmd: "map_of (defaults json_tool) ''command'' = Some ''python -m json.tool''"
    by (simp add: json_tool_def)
  obtain st where b: "build_parser json_world json_tool = Inr st"
    using build_parser_total [OF acc cmd] by blast
  have a: "parse_args json_world (parser st) = Some args_sorted"
    by (simp add: json_world_def)
  have c: "construct_cmd json_tool args_sorted = Inr ?cmd"
    by (simp add: json_tool_eval args_sorted_def)
  have d: "rstrip (decode json_world ''Expecting value: line 1 column 1 (char 0)  '')
             = map of_char ''Expecting value: line 1 column 1 (char 0)''"
    by (simp add: rstrip_def unicode_isspace_def json_world_def)
  note run = exit_status_reported [OF p, THEN conjunct2, rule_format,
      OF conjI [OF l conjI [OF r conjI [OF b conjI [OF a c]]]]]
  then have "ending (main json_world) = Exit 1
        \<and> printed (main json_world)
            = Running ?cmd # map (\<lambda>line. Line (rstrip (decode json_world line)))
                [''Expecting value: line 1 column 1 (char 0)  ''] @ [Done 1]
        \<and> exit_code (ending (main json_world)) = Some 1"
    by (auto simp: exit_code_def)
  with p d show ?thesis by (auto simp: exit_code_def)
qed

end
